theory Spec2Isabelle
  imports Complex_Main "HOL-Library.Monad_Syntax"
begin

section \<open>Numeric conventions\<close>

text \<open>
  The program computes with NumPy double-precision values. Finite values are modelled
  by the reals; rounding is modelled where a grid index is computed and left out
  elsewhere. The three special results that NumPy division produces at a zero divisor are
  kept as separate values, because two of the properties studied below are about exactly
  those.
\<close>

datatype npfloat = Fin real | PInf | NInf | NaN

text \<open>
  \<^verbatim>\<open>a / b\<close> on \<^verbatim>\<open>numpy.float64\<close>: a zero divisor does not raise (NumPy only
  warns); the quotient is an infinity with the sign of the dividend, or NaN for 0/0.
  (The reals have one zero; it stands for the positive zero of the doubles.)
\<close>

definition np_divide :: "real \<Rightarrow> real \<Rightarrow> npfloat" where
  "np_divide a b =
     (if b \<noteq> 0 then Fin (a / b)
      else if 0 < a then PInf
      else if a < 0 then NInf
      else NaN)"

fun np_arctan :: "npfloat \<Rightarrow> npfloat" where
  "np_arctan (Fin x) = Fin (arctan x)"
| "np_arctan PInf = Fin (pi / 2)"
| "np_arctan NInf = Fin (- (pi / 2))"
| "np_arctan NaN = NaN"

text \<open>\<^verbatim>\<open>c + v\<close> and \<^verbatim>\<open>v * c\<close> for a finite \<open>c\<close>.\<close>

fun np_add :: "real \<Rightarrow> npfloat \<Rightarrow> npfloat" where
  "np_add c (Fin x) = Fin (c + x)"
| "np_add c PInf = PInf"
| "np_add c NInf = NInf"
| "np_add c NaN = NaN"

fun np_scale :: "npfloat \<Rightarrow> real \<Rightarrow> npfloat" where
  "np_scale (Fin x) c = Fin (x * c)"
| "np_scale PInf c = (if 0 < c then PInf else if c < 0 then NInf else NaN)"
| "np_scale NInf c = (if 0 < c then NInf else if c < 0 then PInf else NaN)"
| "np_scale NaN c = NaN"

text \<open>Comparisons with a finite bound; every comparison with NaN is false.\<close>

fun np_less :: "npfloat \<Rightarrow> real \<Rightarrow> bool" where
  "np_less (Fin x) c = (x < c)"
| "np_less PInf c = False"
| "np_less NInf c = True"
| "np_less NaN c = False"

fun np_greater :: "npfloat \<Rightarrow> real \<Rightarrow> bool" where
  "np_greater (Fin x) c = (c < x)"
| "np_greater PInf c = True"
| "np_greater NInf c = False"
| "np_greater NaN c = False"

definition deg2rad :: "real \<Rightarrow> real" where
  "deg2rad d = d * (pi / 180)"

definition rad2deg :: "npfloat \<Rightarrow> npfloat" where
  "rad2deg v = np_scale v (180 / pi)"

section \<open>The rotating vector model: \<^verbatim>\<open>rvm.py\<close>\<close>

text \<open>
  The local variables of \<^verbatim>\<open>rvm\<close> that the conversion loop and the formula touch.
  \<open>angRad\<close> is unbound until the loop assigns it.
\<close>

record rvm_locals =
  alpha :: real
  beta :: real
  phi0 :: real
  psi0 :: real
  angRad :: "real list option"

definition rvm_entry :: "real \<Rightarrow> real \<Rightarrow> real \<Rightarrow> real \<Rightarrow> rvm_locals" where
  "rvm_entry a b p0 s0 = \<lparr>alpha = a, beta = b, phi0 = p0, psi0 = s0, angRad = None\<rparr>"

text \<open>
  \<^verbatim>\<open>angles = alpha, beta, phi0, psi0\<close>
  \<^verbatim>\<open>for angle in angles: angRad = np.deg2rad(angles)\<close>
\<close>

definition convert_angles :: "rvm_locals \<Rightarrow> rvm_locals" where
  "convert_angles l =
     (let angles = [alpha l, beta l, phi0 l, psi0 l]
      in fold (\<lambda>angle l'. l'\<lparr>angRad := Some (map deg2rad angles)\<rparr>) angles l)"

text \<open>The two one-step corrections applied to \<open>psi\<close>, in the order of the source.\<close>

definition restrict_psi :: "npfloat \<Rightarrow> npfloat" where
  "restrict_psi psi =
     (let psi1 = (if np_less psi (- pi / 2) then np_add pi psi else psi);
          psi2 = (if np_greater psi1 (pi / 2) then np_add (- pi) psi1 else psi1)
      in psi2)"

text \<open>One pass of the loop over \<^verbatim>\<open>points\<close>, for the baseline point \<open>x\<close>.\<close>

definition rvm_numer :: "rvm_locals \<Rightarrow> real \<Rightarrow> real" where
  "rvm_numer l x = sin (alpha l) * sin (deg2rad x - phi0 l)"

definition rvm_denom :: "rvm_locals \<Rightarrow> real \<Rightarrow> real" where
  "rvm_denom l x =
     (let zeta = alpha l + beta l
      in sin zeta * cos (alpha l) - cos zeta * sin (alpha l) * cos (deg2rad x - phi0 l))"

text \<open>
  Lines 41 to 51: the position angle of one phase sample from \<open>psi0\<close> and the computed
  numerator and denominator.
\<close>

definition rvm_sample :: "real \<Rightarrow> real \<Rightarrow> real \<Rightarrow> npfloat" where
  "rvm_sample s0 numer denom =
     rad2deg (restrict_psi (np_add s0 (np_arctan (np_divide numer denom))))"

definition rvm_point :: "rvm_locals \<Rightarrow> real \<Rightarrow> npfloat" where
  "rvm_point l x = rvm_sample (psi0 l) (rvm_numer l x) (rvm_denom l x)"

definition rvm_points :: "rvm_locals \<Rightarrow> real list \<Rightarrow> npfloat list" where
  "rvm_points l xprof = map (rvm_point l) xprof"

text \<open>
  \<^verbatim>\<open>rvm(alpha, beta, phi0, psi0, psi, xprof)\<close>. The parameter \<open>psi\<close> is overwritten
  before it is read.
\<close>

definition rvm :: "real \<Rightarrow> real \<Rightarrow> real \<Rightarrow> real \<Rightarrow> real \<Rightarrow> real list \<Rightarrow> npfloat list" where
  "rvm a b p0 s0 psi xprof = rvm_points (convert_angles (rvm_entry a b p0 s0)) xprof"

text \<open>The same function with the conversion loop deleted.\<close>

definition rvm_without_conversion ::
  "real \<Rightarrow> real \<Rightarrow> real \<Rightarrow> real \<Rightarrow> real \<Rightarrow> real list \<Rightarrow> npfloat list" where
  "rvm_without_conversion a b p0 s0 psi xprof = rvm_points (rvm_entry a b p0 s0) xprof"

section \<open>The beam generator: \<^verbatim>\<open>generateBeam.py\<close>\<close>

subsection \<open>Python and NumPy primitives\<close>

text \<open>
  A computation that raises (IndexError, ValueError, NameError) has the value \<open>None\<close>;
  the exception propagates to the top of the script, so the kinds need not be told apart.
\<close>

text \<open>Indexing with a Python integer: a negative index counts from the end.\<close>

definition py_index :: "'a list \<Rightarrow> int \<Rightarrow> 'a option" where
  "py_index xs i =
     (if 0 \<le> i \<and> i < int (length xs) then Some (xs ! nat i)
      else if i < 0 \<and> - int (length xs) \<le> i then Some (xs ! nat (int (length xs) + i))
      else None)"

text \<open>
  \<^verbatim>\<open>np.linspace(a, b, num=n, endpoint=True)\<close>: \<open>n\<close> samples with step
  \<open>(b - a) / (n - 1)\<close>; a single sample is \<open>a\<close>.
\<close>

definition linspace :: "real \<Rightarrow> real \<Rightarrow> nat \<Rightarrow> real list" where
  "linspace a b n =
     (if n = 1 then [a] else map (\<lambda>i. a + real i * ((b - a) / real (n - 1))) [0..<n])"

text \<open>
  Where a grid index is computed, the rounding of the doubles decides the result and is
  part of the model. \<open>binary64\<close> rounds a real to the nearest double, ties to the even
  significand: 53 bits of significand, exponents down to the subnormal range; overflow is
  not modelled. A difference and a quotient of two doubles are the rounded exact results.
\<close>

definition round_half_even :: "real \<Rightarrow> int" where
  "round_half_even y =
     (let n = \<lfloor>y\<rfloor>; r = y - of_int n
      in if r < 1 / 2 then n
         else if 1 / 2 < r then n + 1
         else if even n then n else n + 1)"

definition binary64_exponent :: "real \<Rightarrow> int" where
  "binary64_exponent x = max \<lfloor>log 2 \<bar>x\<bar>\<rfloor> (- 1022) - 52"

definition binary64 :: "real \<Rightarrow> real" where
  "binary64 x =
     (if x = 0 then 0
      else let e = binary64_exponent x
           in of_int (round_half_even (x / 2 powr of_int e)) * 2 powr of_int e)"

definition fsub :: "real \<Rightarrow> real \<Rightarrow> real" where
  "fsub a b = binary64 (a - b)"

definition fdiv :: "real \<Rightarrow> real \<Rightarrow> real" where
  "fdiv a b = binary64 (a / b)"

text \<open>Conversion of a float to \<^verbatim>\<open>dtype=int\<close> truncates towards zero.\<close>

definition float_to_int :: "real \<Rightarrow> int" where
  "float_to_int v = (if 0 \<le> v then \<lfloor>v\<rfloor> else \<lceil>v\<rceil>)"

text \<open>\<^verbatim>\<open>np.max\<close> of a sequence; it raises on an empty one.\<close>

definition np_max :: "real list \<Rightarrow> real option" where
  "np_max xs = (case xs of [] \<Rightarrow> None | v # vs \<Rightarrow> Some (fold max vs v))"

text \<open>\<^verbatim>\<open>np.roll(a, k)\<close>: element \<open>i\<close> moves to position \<open>(i + k) mod n\<close>.\<close>

definition np_roll :: "'a list \<Rightarrow> int \<Rightarrow> 'a list" where
  "np_roll xs k = (if xs = [] then [] else rotate (nat ((- k) mod int (length xs))) xs)"

text \<open>
  Two index arrays used together are broadcast: equal lengths pair up, and an array of
  one element is repeated; any other combination raises.
\<close>

definition broadcast_pair :: "'a list \<Rightarrow> 'b list \<Rightarrow> ('a \<times> 'b) list option" where
  "broadcast_pair xs ys =
     (if length xs = length ys then Some (zip xs ys)
      else if length xs = 1 then Some (map (\<lambda>b. (hd xs, b)) ys)
      else if length ys = 1 then Some (map (\<lambda>a. (a, hd ys)) xs)
      else None)"

text \<open>One index into an axis of length \<open>n\<close>: in range, wrapped from the end, or out of bounds.\<close>

definition axis_index :: "nat \<Rightarrow> int \<Rightarrow> nat option" where
  "axis_index n i =
     (if 0 \<le> i \<and> i < int n then Some (nat i)
      else if i < 0 \<and> - int n \<le> i then Some (nat (int n + i))
      else None)"

subsection \<open>The module \<^verbatim>\<open>beamModel\<close>\<close>

text \<open>
  \<^verbatim>\<open>generateBeam.py\<close> calls the functions of the module \<^verbatim>\<open>beamModel\<close> (imported as
  \<^verbatim>\<open>bm\<close>). They are parameters of the embedding: a record of functions of their
  arguments, each returning normally. An option that argparse leaves at its default is
  \<open>None\<close>, and a given one carries its text.
\<close>

type_synonym flag = "string option"

record beam_model =
  emission_height :: "real \<Rightarrow> int \<Rightarrow> int \<Rightarrow> real option \<Rightarrow> real option \<Rightarrow> real list"
  height_f :: "real list \<Rightarrow> real \<Rightarrow> real list"
  patch_width :: "real \<Rightarrow> real list \<Rightarrow> real list"
  los :: "real \<Rightarrow> real \<Rightarrow> nat \<Rightarrow> real list \<times> real list \<times> real list"
  patch_center :: "real \<Rightarrow> real list \<Rightarrow> int \<Rightarrow> int \<Rightarrow> flag \<Rightarrow> real list list \<times> real list list"
  aberration :: "real list \<Rightarrow> real \<Rightarrow> real \<Rightarrow> real list \<times> real list"
  find_width :: "real list \<Rightarrow> real"
  sc_time :: "real \<Rightarrow> real \<Rightarrow> int \<Rightarrow> real"
  pulsetrain :: "nat \<Rightarrow> nat \<Rightarrow> real list \<Rightarrow> real list"
  broadening :: "real \<Rightarrow> real \<Rightarrow> nat \<Rightarrow> real list"
  scatter :: "real list \<Rightarrow> real list \<Rightarrow> real list"
  extractpulse :: "real list \<Rightarrow> nat \<Rightarrow> nat \<Rightarrow> real list"
  find_peak :: "real list \<Rightarrow> real"
  noise_rms :: "real \<Rightarrow> real \<Rightarrow> real"
  add_noise :: "real list list \<Rightarrow> real \<Rightarrow> int \<Rightarrow> nat \<Rightarrow> real list list"
  find_phase_bin :: "real list \<Rightarrow> int"
  find_delta_dm ::
    "real \<Rightarrow> real list list \<Rightarrow> real list \<Rightarrow> int \<Rightarrow> int \<Rightarrow> real \<Rightarrow> real \<Rightarrow> int \<Rightarrow> real list"
  delay :: "real \<Rightarrow> real \<Rightarrow> real \<Rightarrow> real \<Rightarrow> int"
  avg_prof :: "real list list \<Rightarrow> real list"

subsection \<open>The angular grid\<close>

definition xmin :: real where "xmin = - 180"
definition xmax :: real where "xmax = 180"
definition ymin :: real where "ymin = - 180"
definition ymax :: real where "ymax = 180"

text \<open>\<^verbatim>\<open>res = 1e3\<close>, used as a count.\<close>

definition res :: nat where "res = 1000"

definition dx :: real where "dx = fdiv (fsub xmax xmin) (real res)"
definition dy :: real where "dy = fdiv (fsub ymax ymin) (real res)"

definition grid_x :: "real list" where "grid_x = linspace xmin xmax res"
definition grid_y :: "real list" where "grid_y = linspace ymin ymax res"

text \<open>
  \<^verbatim>\<open>X, Y = np.meshgrid(x, y)\<close>: in row \<open>r\<close> and column \<open>c\<close>, \<open>X\<close> holds
  \<open>x[c]\<close> and \<open>Y\<close> holds \<open>y[r]\<close>. A two-dimensional array over the grid is a function
  of row and column; only rows and columns below \<open>res\<close> are cells of the array.
\<close>

type_synonym field = "nat \<Rightarrow> nat \<Rightarrow> real"

definition mesh_X :: field where "mesh_X r c = grid_x ! c"
definition mesh_Y :: field where "mesh_Y r c = grid_y ! r"

definition zeros :: field where "zeros r c = 0"

definition peakAmp :: real where "peakAmp = 1"

subsection \<open>The two-dimensional beam\<close>

text \<open>
  The array \<^verbatim>\<open>distance\<close> after its two masked assignments, at one cell: the distance
  from the patch centre \<open>pc\<close> in units of the width, set to 0 where it exceeds 3, then
  set to \<open>peakAmp\<close> where it is not 0. The widths returned by \<^verbatim>\<open>bm.patch_width\<close>
  are positive; a zero width (an infinite or undefined quotient in NumPy) is outside the
  real-valued model, and the theorems about the beam assume positive widths.
\<close>

definition distance_mask :: "real \<Rightarrow> real \<times> real \<Rightarrow> field" where
  "distance_mask sigmax pc r c =
     (let distance = sqrt ((mesh_X r c - fst pc)\<^sup>2 + (mesh_Y r c - snd pc)\<^sup>2) / sigmax;
          distance1 = (if distance > 3 then 0 else distance);
          distance2 = (if distance1 \<noteq> 0 then peakAmp else distance1)
      in distance2)"

text \<open>The Gaussian of one patch about the centre \<open>(cx, cy)\<close>.\<close>

definition gaussian :: "real \<Rightarrow> real \<Rightarrow> real \<Rightarrow> real \<Rightarrow> field" where
  "gaussian sigmax sigmay cx cy r c =
     exp (- ((mesh_X r c - cx)\<^sup>2 / (2 * sigmax\<^sup>2) + (mesh_Y r c - cy)\<^sup>2 / (2 * sigmay\<^sup>2)))"

text \<open>
  What one pass of the loop over the patch centres adds to \<open>Z\<close>: without aberration the
  Gaussian about \<open>pc\<close>, with aberration the Gaussian about \<open>pc\<close> shifted by the offsets
  \<open>(abx, aby)\<close> of the component; in both cases times the mask about \<open>pc\<close>.
\<close>

definition patch_increment :: "flag \<Rightarrow> real \<Rightarrow> real \<Rightarrow> real \<times> real \<Rightarrow> real \<Rightarrow> real \<Rightarrow> field" where
  "patch_increment do_ab sigmax sigmay pc abx aby r c =
     (if do_ab = None
      then distance_mask sigmax pc r c * gaussian sigmax sigmay (fst pc) (snd pc) r c
      else distance_mask sigmax pc r c *
             gaussian sigmax sigmay (fst pc + abx) (snd pc + aby) r c)"

text \<open>
  The offsets \<^verbatim>\<open>ab_xofset[cid]\<close>, \<^verbatim>\<open>ab_yofset[cid]\<close> are read only on the aberration
  branch, where an index past the end raises.
\<close>

definition add_patch ::
  "flag \<Rightarrow> real \<Rightarrow> real \<Rightarrow> real list \<Rightarrow> real list \<Rightarrow> nat \<Rightarrow> field \<Rightarrow> real \<times> real \<Rightarrow> field option" where
  "add_patch do_ab sigmax sigmay ab_xofset ab_yofset cid Z pc =
     (if do_ab = None
      then Some (\<lambda>r c. Z r c + patch_increment do_ab sigmax sigmay pc 0 0 r c)
      else if cid < length ab_xofset \<and> cid < length ab_yofset
      then Some (\<lambda>r c. Z r c +
                   patch_increment do_ab sigmax sigmay pc (ab_xofset ! cid) (ab_yofset ! cid) r c)
      else None)"

fun patch_loop :: "(field \<Rightarrow> real \<times> real \<Rightarrow> field option) \<Rightarrow> field \<Rightarrow> (real \<times> real) list \<Rightarrow> field option" where
  "patch_loop step Z [] = Some Z"
| "patch_loop step Z (pc # pcs) =
     (case step Z pc of None \<Rightarrow> None | Some Z' \<Rightarrow> patch_loop step Z' pcs)"

text \<open>The body of the loop over the components, for the component number \<open>cid\<close>.\<close>

definition component_step ::
  "flag \<Rightarrow> real list \<Rightarrow> real list list \<Rightarrow> real list list \<Rightarrow> real list \<Rightarrow> real list \<Rightarrow>
   field \<Rightarrow> nat \<Rightarrow> field option" where
  "component_step do_ab patchwidths centerx centery ab_xofset ab_yofset Z cid =
     (if cid < length patchwidths \<and> cid < length centerx \<and> cid < length centery
      then
        let sigmax = patchwidths ! cid;
            sigmay = patchwidths ! cid;
            patchCenterX = centerx ! cid;
            patchCenterY = centery ! cid
        in patch_loop (add_patch do_ab sigmax sigmay ab_xofset ab_yofset cid) Z
             (zip patchCenterX patchCenterY)
      else None)"

fun component_loop :: "(field \<Rightarrow> nat \<Rightarrow> field option) \<Rightarrow> field \<Rightarrow> nat list \<Rightarrow> field option" where
  "component_loop step Z [] = Some Z"
| "component_loop step Z (cid # cids) =
     (case step Z cid of None \<Rightarrow> None | Some Z' \<Rightarrow> component_loop step Z' cids)"

text \<open>Lines 66 to 87: the field \<open>Z\<close> after the loop over \<^verbatim>\<open>enumerate(heights)\<close>.\<close>

definition beam_field ::
  "flag \<Rightarrow> real list \<Rightarrow> real list \<Rightarrow> real list list \<Rightarrow> real list list \<Rightarrow> real list \<Rightarrow> real list \<Rightarrow>
   field option" where
  "beam_field do_ab heights patchwidths centerx centery ab_xofset ab_yofset =
     component_loop (component_step do_ab patchwidths centerx centery ab_xofset ab_yofset)
       zeros [0..<length heights]"

subsection \<open>The one-dimensional profile\<close>

text \<open>
  \<^verbatim>\<open>np.array((los - lo) / step, dtype=int)\<close>: the difference and the quotient are
  rounded to doubles before the truncation.
\<close>

definition grid_index :: "real \<Rightarrow> real \<Rightarrow> real \<Rightarrow> int" where
  "grid_index lo step v = float_to_int (fdiv (fsub v lo) step)"

definition index_array :: "real list \<Rightarrow> real \<Rightarrow> real \<Rightarrow> int list" where
  "index_array coords lo step = map (grid_index lo step) coords"

text \<open>
  The doubles just below 180 are spaced by \<open>2^-45\<close>: the first of them is
  179.99999999999997 and the second, \<open>last_indexable\<close>, is 179.99999999999994.
\<close>

definition below_180 :: real where
  "below_180 = 180 - 1 / 2 ^ 45"

definition last_indexable :: real where
  "last_indexable = 180 - 1 / 2 ^ 44"

text \<open>
  \<^verbatim>\<open>Z[ZxIdx, ZyIdx]\<close> on the \<open>res \<times> res\<close> array: the first index array selects
  the row and the second the column; an index outside \<open>[-res, res)\<close> raises IndexError.
\<close>

definition gather :: "field \<Rightarrow> int list \<Rightarrow> int list \<Rightarrow> real list option" where
  "gather Z ZxIdx ZyIdx =
     do {
       idx \<leftarrow> broadcast_pair ZxIdx ZyIdx;
       those (map (\<lambda>(i, j). do {
                      r \<leftarrow> axis_index res i;
                      c \<leftarrow> axis_index res j;
                      Some (Z r c)
                    }) idx)
     }"

definition extract_profile :: "field \<Rightarrow> real list \<Rightarrow> real list \<Rightarrow> real list option" where
  "extract_profile Z xlos ylos =
     (let ZxIdx = index_array xlos xmin dx;
          ZyIdx = index_array ylos ymin dy
      in gather Z ZxIdx ZyIdx)"

text \<open>
  \<^verbatim>\<open>generateBeam(P, alpha, beta, freq, dm, heights, npatch, snr, do_ab, iseed, fanBeam)\<close>
  returns the profile and the field.
\<close>

definition generateBeam ::
  "beam_model \<Rightarrow> real \<Rightarrow> real \<Rightarrow> real \<Rightarrow> real \<Rightarrow> real \<Rightarrow> real list \<Rightarrow> int \<Rightarrow> real option \<Rightarrow>
   flag \<Rightarrow> int \<Rightarrow> flag \<Rightarrow> (real list \<times> field) option" where
  "generateBeam bm P al be freq dm heights npatch snr do_ab iseed fanBeam =
     (let patchwidths = patch_width bm P heights;
          (xlos, ylos, thetalos) = los bm al be res;
          (centerx, centery) = patch_center bm P heights npatch iseed fanBeam;
          (ab_xofset, ab_yofset) = aberration bm heights P al
      in do {
        Z \<leftarrow> beam_field do_ab heights patchwidths centerx centery ab_xofset ab_yofset;
        prof \<leftarrow> extract_profile Z xlos ylos;
        Some (prof, Z)
      })"

subsection \<open>The script: command line, channels, scattering, noise\<close>

text \<open>The parsed command line (\<^verbatim>\<open>args\<close>); the output file name is not part of the model.\<close>

record config =
  arg_alpha :: real
  arg_beta :: real
  arg_p :: real
  arg_hmin :: "real option"
  arg_hmax :: "real option"
  arg_nc :: int
  arg_npatch :: int
  arg_min_freq :: real
  arg_chbw :: real
  arg_nch :: int
  arg_iseed :: int
  arg_snr :: "real option"
  arg_dm :: real
  arg_do_ab :: flag
  arg_scatter :: flag
  arg_doFan :: flag

text \<open>
  Step 2, the loop over the channel frequencies. \<open>channel_beam\<close> is the call of
  \<^verbatim>\<open>generateBeam\<close> for one frequency, with the heights mapped to it. The state of the
  loop is the three lists \<^verbatim>\<open>w10\<close>, \<^verbatim>\<open>prof\<close> and \<^verbatim>\<open>beam\<close>, each appended to
  once per channel.
\<close>

definition channel_beam ::
  "beam_model \<Rightarrow> config \<Rightarrow> real list \<Rightarrow> real \<Rightarrow> (real list \<times> field) option" where
  "channel_beam bm cfg H f =
     (let heights = height_f bm H f
      in generateBeam bm (arg_p cfg) (arg_alpha cfg) (arg_beta cfg) f (arg_dm cfg) heights
           (arg_npatch cfg) (arg_snr cfg) (arg_do_ab cfg) (arg_iseed cfg) (arg_doFan cfg))"

fun frequency_loop ::
  "beam_model \<Rightarrow> config \<Rightarrow> real list \<Rightarrow> real list \<times> real list list \<times> field list \<Rightarrow> real list \<Rightarrow>
   (real list \<times> real list list \<times> field list) option" where
  "frequency_loop bm cfg H st [] = Some st"
| "frequency_loop bm cfg H (w10, prof, beam) (f # fs) =
     (case channel_beam bm cfg H f of
        None \<Rightarrow> None
      | Some (pr, Z) \<Rightarrow>
          frequency_loop bm cfg H (w10 @ [find_width bm pr], prof @ [pr], beam @ [Z]) fs)"

text \<open>
  Step 3. Without the flag the list of profiles itself is taken. With it, a pulse train of
  three periods is built from every profile and then, channel by channel, convolved with
  the broadening function and cut back to one period. (The value that line 174 assigns to
  \<^verbatim>\<open>tau\<close> is overwritten before it is read.)
\<close>

definition scattering_stage ::
  "beam_model \<Rightarrow> flag \<Rightarrow> real \<Rightarrow> real \<Rightarrow> int \<Rightarrow> real list \<Rightarrow> real list list \<Rightarrow> real list list option" where
  "scattering_stage bm scr P dm iseed freq prof =
     (if scr = None then Some prof
      else
        let train = map (\<lambda>pid. pulsetrain bm 3 res (prof ! pid)) [0..<length prof]
        in those (map (\<lambda>fid.
                    if fid < length train
                    then let tau = sc_time bm (freq ! fid) dm iseed;
                             bf = broadening bm tau P res;
                             sc_train = scatter bm (train ! fid) bf
                         in Some (extractpulse bm sc_train 2 res)
                    else None) [0..<length freq]))"

text \<open>Step 4. The peaks are those of the first \<open>len(prof)\<close> entries of \<^verbatim>\<open>sc_prof\<close>.\<close>

definition noise_stage ::
  "beam_model \<Rightarrow> real option \<Rightarrow> int \<Rightarrow> nat \<Rightarrow> real list list \<Rightarrow> real list list option" where
  "noise_stage bm snr iseed nprof sc_prof =
     do {
       peaks \<leftarrow> those (map (\<lambda>j. map_option (find_peak bm) (py_index sc_prof (int j))) [0..<nprof]);
       case snr of
         None \<Rightarrow> Some sc_prof
       | Some s \<Rightarrow> do {
           highest \<leftarrow> np_max peaks;
           Some (add_noise bm sc_prof (noise_rms bm s highest) iseed res)
         }
     }"

subsection \<open>The script: the search for the dispersion measure\<close>

text \<open>
  The inner loop of step 5, \<^verbatim>\<open>for freq_id in range(nch-1)\<close>, for one trial value:
  every profile it visits is rolled by its delay with respect to \<^verbatim>\<open>freq[nch - 1]\<close>.
\<close>

definition shifted_profiles ::
  "beam_model \<Rightarrow> int \<Rightarrow> real list \<Rightarrow> real list list \<Rightarrow> real \<Rightarrow> real \<Rightarrow> real list list option" where
  "shifted_profiles bm nch freq profile t_res dm_trial =
     those (map (\<lambda>freq_id. do {
                    f_ref \<leftarrow> py_index freq (nch - 1);
                    f \<leftarrow> py_index freq (int freq_id);
                    pr \<leftarrow> py_index profile (int freq_id);
                    Some (np_roll pr (delay bm f_ref f dm_trial t_res))
                  }) [0..<nat (nch - 1)])"

text \<open>The peak recorded for one trial value: that of the average of the shifted profiles.\<close>

definition trial_peak ::
  "beam_model \<Rightarrow> int \<Rightarrow> real list \<Rightarrow> real list list \<Rightarrow> real \<Rightarrow> real \<Rightarrow> real option" where
  "trial_peak bm nch freq profile t_res dm_trial =
     map_option (\<lambda>shifted_profile. find_peak bm (avg_prof bm shifted_profile))
       (shifted_profiles bm nch freq profile t_res dm_trial)"

definition peaks_of_average ::
  "beam_model \<Rightarrow> int \<Rightarrow> real list \<Rightarrow> real list list \<Rightarrow> real \<Rightarrow> real list \<Rightarrow> real list option" where
  "peaks_of_average bm nch freq profile t_res dm_range =
     those (map (trial_peak bm nch freq profile t_res) dm_range)"

text \<open>
  The selection loop. \<^verbatim>\<open>best_dm\<close> is unbound (\<open>None\<close>) until the first assignment;
  every index whose peak equals the maximum assigns it.
\<close>

fun selection_loop :: "real list \<Rightarrow> real list \<Rightarrow> real option \<Rightarrow> nat list \<Rightarrow> real option option" where
  "selection_loop peaks dm_range best_dm [] = Some best_dm"
| "selection_loop peaks dm_range best_dm (i # rest) =
     (case (py_index peaks (int i), np_max peaks) of
        (Some pk, Some highest) \<Rightarrow>
          if pk = highest
          then (case py_index dm_range (int i) of
                  None \<Rightarrow> None
                | Some d \<Rightarrow> selection_loop peaks dm_range (Some d) rest)
          else selection_loop peaks dm_range best_dm rest
      | _ \<Rightarrow> None)"

definition select_best_dm :: "real list \<Rightarrow> real list \<Rightarrow> real option option" where
  "select_best_dm peaks dm_range = selection_loop peaks dm_range None [0..<length peaks]"

subsection \<open>The script as a whole\<close>

text \<open>The seven numbers of \<^verbatim>\<open>pulsarParams\<close>, the line appended to the output file.\<close>

record pulsarParams =
  out_P :: real
  out_alpha :: real
  out_beta :: real
  out_w10_first :: real
  out_w10_last :: real
  out_iseed :: int
  out_best_dm :: real

text \<open>Steps 1 and 2: the channel frequencies, the emission heights and the loop.\<close>

definition channel_frequencies :: "config \<Rightarrow> real list option" where
  "channel_frequencies cfg =
     (let max_freq = (real_of_int (arg_nch cfg) - 1) * arg_chbw cfg + arg_min_freq cfg
      in if arg_nch cfg < 0 then None
         else Some (linspace (arg_min_freq cfg) max_freq (nat (arg_nch cfg))))"

definition extraction_stage ::
  "beam_model \<Rightarrow> config \<Rightarrow> (real list \<times> real list list \<times> field list) option" where
  "extraction_stage bm cfg =
     do {
       freq \<leftarrow> channel_frequencies cfg;
       frequency_loop bm cfg
         (emission_height bm (arg_p cfg) (arg_nc cfg) (arg_iseed cfg) (arg_hmin cfg) (arg_hmax cfg))
         ([], [], []) freq
     }"

definition main_body :: "beam_model \<Rightarrow> config \<Rightarrow> pulsarParams option" where
  "main_body bm cfg =
     (let P = arg_p cfg;
          nch = arg_nch cfg;
          iseed = arg_iseed cfg;
          t_res = P / real res;
          phase = linspace (- 180) 180 res
      in do {
        freq \<leftarrow> channel_frequencies cfg;
        (w10, prof, beam) \<leftarrow> extraction_stage bm cfg;
        sc_prof \<leftarrow> scattering_stage bm (arg_scatter cfg) P (arg_dm cfg) iseed freq prof;
        profile \<leftarrow> noise_stage bm (arg_snr cfg) iseed (length prof) sc_prof;
        profile_last \<leftarrow> py_index profile (nch - 1);
        profile_first \<leftarrow> py_index profile 0;
        freq_last \<leftarrow> py_index freq (nch - 1);
        freq_first \<leftarrow> py_index freq 0;
        let phase_bin0 = find_phase_bin bm profile_last;
            phase_bin1 = find_phase_bin bm profile_first;
            dm_range = find_delta_dm bm P profile phase phase_bin0 phase_bin1
                         freq_last freq_first nch
        in do {
          peaks \<leftarrow> peaks_of_average bm nch freq profile t_res dm_range;
          selected \<leftarrow> select_best_dm peaks dm_range;
          best_dm \<leftarrow> selected;
          w10_first \<leftarrow> py_index w10 0;
          w10_last \<leftarrow> py_index w10 (- 1);
          Some \<lparr>out_P = P, out_alpha = arg_alpha cfg, out_beta = arg_beta cfg,
                out_w10_first = w10_first, out_w10_last = w10_last,
                out_iseed = iseed, out_best_dm = best_dm\<rparr>
        }
      })"

section \<open>The statements of the specification, for comparison\<close>

text \<open>
  The contribution of one patch in the words of the specification: the Gaussian about the
  effective centre (the centre shifted by the aberration offsets when aberration is
  enabled, the nominal centre otherwise), times an indicator that is 1 within three
  widths of that same centre and 0 beyond.
\<close>

definition spec_patch_contribution ::
  "flag \<Rightarrow> real \<Rightarrow> real \<Rightarrow> real \<times> real \<Rightarrow> real \<Rightarrow> real \<Rightarrow> field" where
  "spec_patch_contribution do_ab sigmax sigmay pc abx aby r c =
     (let cx = (if do_ab = None then fst pc else fst pc + abx);
          cy = (if do_ab = None then snd pc else snd pc + aby);
          indicator = (if sqrt ((mesh_X r c - cx)\<^sup>2 + (mesh_Y r c - cy)\<^sup>2) \<le> 3 * sigmax
                       then 1 else 0)
      in indicator * gaussian sigmax sigmay cx cy r c)"

text \<open>A cell lies outside a patch when it is more than three widths from its centre.\<close>

definition outside_patch :: "real \<Rightarrow> real \<times> real \<Rightarrow> nat \<Rightarrow> nat \<Rightarrow> bool" where
  "outside_patch sigma pc r c =
     (3 * sigma < sqrt ((mesh_X r c - fst pc)\<^sup>2 + (mesh_Y r c - snd pc)\<^sup>2))"

text \<open>
  The tie-break of the specification: the first trial value, in the order of
  \<^verbatim>\<open>dm_range\<close>, whose peak is the maximum.
\<close>

definition first_maximal_dm :: "real list \<Rightarrow> real list \<Rightarrow> real option" where
  "first_maximal_dm peaks dm_range =
     (case np_max peaks of
        None \<Rightarrow> None
      | Some highest \<Rightarrow> map_option snd (find (\<lambda>(pk, d). pk = highest) (zip peaks dm_range)))"

text \<open>
  The trial of the specification: every one of the \<open>nch\<close> channels is rolled, the
  reference channel included, and the peak is that of the average of all of them.
\<close>

definition shifted_profiles_all_channels ::
  "beam_model \<Rightarrow> int \<Rightarrow> real list \<Rightarrow> real list list \<Rightarrow> real \<Rightarrow> real \<Rightarrow> real list list option" where
  "shifted_profiles_all_channels bm nch freq profile t_res dm_trial =
     those (map (\<lambda>freq_id. do {
                    f_ref \<leftarrow> py_index freq (nch - 1);
                    f \<leftarrow> py_index freq (int freq_id);
                    pr \<leftarrow> py_index profile (int freq_id);
                    Some (np_roll pr (delay bm f_ref f dm_trial t_res))
                  }) [0..<nat nch])"

definition trial_peak_all_channels ::
  "beam_model \<Rightarrow> int \<Rightarrow> real list \<Rightarrow> real list list \<Rightarrow> real \<Rightarrow> real \<Rightarrow> real option" where
  "trial_peak_all_channels bm nch freq profile t_res dm_trial =
     map_option (\<lambda>shifted_profile. find_peak bm (avg_prof bm shifted_profile))
       (shifted_profiles_all_channels bm nch freq profile t_res dm_trial)"

section \<open>An instance of the module, for running the script\<close>

text \<open>
  Modelled from the spec: \<^verbatim>\<open>bm.avg_prof\<close> and \<^verbatim>\<open>bm.find_peak\<close> are not among the
  sources. The specification has the shifted profiles averaged across the channels, sample
  by sample, and the peak of the averaged profile recorded.
\<close>

definition mean_profile :: "real list list \<Rightarrow> real list" where
  "mean_profile ps =
     (case ps of
        [] \<Rightarrow> []
      | q # qs \<Rightarrow> map (\<lambda>k. sum_list (map (\<lambda>pr. pr ! k) ps) / real (length ps)) [0..<length q])"

definition peak_value :: "real list \<Rightarrow> real" where
  "peak_value pr = (case pr of [] \<Rightarrow> 0 | v # vs \<Rightarrow> fold max vs v)"

text \<open>
  A small instance of the whole interface, used only to run the script on a concrete
  command line: one patch of width 1 at the origin for every component, a line of sight
  along \<open>y = 0\<close> from \<open>x = -60\<close> in \<open>res\<close> steps of an eighth of a degree, a scattering that halves the train,
  a noise that raises every sample by the rms, and a single trial value.
\<close>

definition bm_sample :: beam_model where
  "bm_sample =
     \<lparr>emission_height = (\<lambda>P ncomp iseed hmin hmax. replicate (nat ncomp) 100),
      height_f = (\<lambda>H f. H),
      patch_width = (\<lambda>P heights. map (\<lambda>h. 1) heights),
      los = (\<lambda>al be n. (map (\<lambda>i. real i / 8 - 60) [0..<n], replicate n 0, replicate n 0)),
      patch_center = (\<lambda>P heights npatch iseed fanBeam.
                        (map (\<lambda>h. [0]) heights, map (\<lambda>h. [0]) heights)),
      aberration = (\<lambda>heights P al. (map (\<lambda>h. 0) heights, map (\<lambda>h. 0) heights)),
      find_width = (\<lambda>pr. real (length (filter (\<lambda>v. peak_value pr / 10 \<le> v) pr))),
      sc_time = (\<lambda>f dm iseed. dm / f ^ 4),
      pulsetrain = (\<lambda>n period pr. concat (replicate n pr)),
      broadening = (\<lambda>tau P period. [1]),
      scatter = (\<lambda>train bf. map (\<lambda>v. v * hd bf / 2) train),
      extractpulse = (\<lambda>train k period. take period (drop ((k - 1) * period) train)),
      find_peak = peak_value,
      noise_rms = (\<lambda>s peak. peak / s),
      add_noise = (\<lambda>profs rms iseed period. map (map (\<lambda>v. v + rms)) profs),
      find_phase_bin = (\<lambda>pr. 0),
      find_delta_dm = (\<lambda>P profile phase bin0 bin1 f_hi f_lo nch. [1]),
      delay = (\<lambda>f_ref f dm t_res. 0),
      avg_prof = mean_profile\<rparr>"

text \<open>The default command line, with one component, one patch and two channels.\<close>

definition cfg_sample :: config where
  "cfg_sample =
     \<lparr>arg_alpha = 45, arg_beta = 5, arg_p = 16 / 100, arg_hmin = None, arg_hmax = None,
      arg_nc = 1, arg_npatch = 1, arg_min_freq = 2 / 10, arg_chbw = 8 / 10, arg_nch = 2,
      arg_iseed = 4, arg_snr = None, arg_dm = 1, arg_do_ab = None, arg_scatter = None,
      arg_doFan = None\<rparr>"

definition sample_Z :: field where
  "sample_Z r c = zeros r c + patch_increment None 1 1 (0, 0) 0 0 r c"

definition sample_prof :: "real list" where
  "sample_prof =
     map (\<lambda>(vx, vy). sample_Z (nat (grid_index xmin dx vx)) (nat (grid_index ymin dy vy)))
       (zip (map (\<lambda>i. real i / 8 - 60) [0..<res]) (replicate res 0))"

section \<open>Properties of \<^verbatim>\<open>rvm\<close>\<close>

lemma convert_angles_fields:
  "alpha (convert_angles l) = alpha l"
  "beta (convert_angles l) = beta l"
  "phi0 (convert_angles l) = phi0 l"
  "psi0 (convert_angles l) = psi0 l"
  by (simp_all add: convert_angles_def Let_def)

lemma rvm_point_convert_angles: "rvm_point (convert_angles l) x = rvm_point l x"
  by (simp add: rvm_point_def rvm_numer_def rvm_denom_def convert_angles_fields)

text \<open>
  C9. The conversion loop has no effect on the result: \<^verbatim>\<open>rvm\<close> equals its variant
  without the loop, and every output element is the formula applied to the raw values of
  \<open>alpha\<close>, \<open>alpha + beta\<close> and \<open>phi0\<close> (only the baseline point is converted to
  radians), with the raw \<open>psi0\<close> added to the arctangent.
\<close>

theorem rvm_conversion_loop_dead:
  "rvm a b p0 s0 psi xprof = rvm_without_conversion a b p0 s0 psi xprof \<and>
   rvm a b p0 s0 psi xprof =
     map (\<lambda>x. rad2deg (restrict_psi (np_add s0 (np_arctan (np_divide
            (sin a * sin (deg2rad x - p0))
            (sin (a + b) * cos a - cos (a + b) * sin a * cos (deg2rad x - p0)))))))
         xprof"
proof -
  have same: "rvm a b p0 s0 psi xprof = rvm_points (rvm_entry a b p0 s0) xprof"
    by (simp add: rvm_def rvm_points_def rvm_point_convert_angles)
  have formula: "rvm_points (rvm_entry a b p0 s0) xprof =
     map (\<lambda>x. rad2deg (restrict_psi (np_add s0 (np_arctan (np_divide
            (sin a * sin (deg2rad x - p0))
            (sin (a + b) * cos a - cos (a + b) * sin a * cos (deg2rad x - p0)))))))
         xprof"
    by (simp add: rvm_points_def rvm_point_def rvm_sample_def rvm_numer_def rvm_denom_def
        rvm_entry_def Let_def)
  show ?thesis
    using same formula by (simp add: rvm_without_conversion_def)
qed

text \<open>
  Whenever \<open>psi0\<close> exceeds \<open>2 * pi\<close> (15, the value of the test line of the module,
  does), every element with a non-zero denominator is above 90 degrees.
\<close>

lemma rvm_point_large_psi0:
  assumes "2 * pi < psi0 l" "rvm_denom l x \<noteq> 0"
  shows "\<exists>v. rvm_point l x = Fin v \<and> 90 < v"
proof -
  define q where "q = rvm_numer l x / rvm_denom l x"
  have lo: "- (pi / 2) < arctan q" by (rule arctan_lbound)
  have a: "\<not> psi0 l + arctan q < - pi / 2" using assms(1) lo pi_gt_zero by linarith
  have b: "pi / 2 < psi0 l + arctan q" using assms(1) lo pi_gt_zero by linarith
  have c: "pi / 2 < psi0 l + arctan q - pi" using assms(1) lo by linarith
  have "rvm_point l x = Fin ((- pi + (psi0 l + arctan q)) * (180 / pi))"
    using assms(2) a b
    by (simp add: rvm_point_def rvm_sample_def np_divide_def restrict_psi_def rad2deg_def Let_def
        q_def)
  moreover have "90 < (- pi + (psi0 l + arctan q)) * (180 / pi)"
  proof -
    have "pi / 2 * (180 / pi) < (- pi + (psi0 l + arctan q)) * (180 / pi)"
      using c by (intro mult_strict_right_mono) simp_all
    then show ?thesis by simp
  qed
  ultimately show ?thesis by blast
qed

lemma sin_one_pos: "0 < sin (1::real)"
  by (rule sin_gt_zero) (use pi_ge_two in auto)

lemma rvm_point_psi0_10: "rvm_point (rvm_entry 0 1 0 10) 0 = Fin ((10 - pi) * (180 / pi))"
proof -
  have p: "pi / 2 < (10::real)" "\<not> (10::real) < - (pi / 2)"
    using pi_less_4 pi_gt_zero by linarith+
  show ?thesis
    using sin_one_pos p
    by (simp add: rvm_point_def rvm_sample_def rvm_numer_def rvm_denom_def rvm_entry_def deg2rad_def
        np_divide_def restrict_psi_def rad2deg_def Let_def)
qed

text \<open>
  C5. The claim is that every element lies in (-90, 90] degrees whenever the denominators
  are non-zero. \<^verbatim>\<open>rvm\<close> adds \<open>psi0\<close>, documented as degrees, to an arctangent in
  radians and corrects by \<open>pi\<close> once, so the output leaves the interval: for
  \<open>alpha = 0\<close>, \<open>beta = 1\<close>, \<open>phi0 = 0\<close>, \<open>psi0 = 10\<close> and the single baseline point 0
  the denominator is \<open>sin 1\<close>, not zero, and the element returned is
  \<open>(10 - pi) * 180 / pi\<close> degrees, above 90.
\<close>

theorem rvm_leaves_range_at_psi0_10:
  "rvm_denom (rvm_entry 0 1 0 10) 0 \<noteq> 0 \<and>
   rvm 0 1 0 10 10 [0] = [Fin ((10 - pi) * (180 / pi))] \<and>
   90 < (10 - pi) * (180 / pi)"
proof -
  have d: "rvm_denom (rvm_entry 0 1 0 10) 0 \<noteq> 0"
    using sin_one_pos by (simp add: rvm_denom_def rvm_entry_def deg2rad_def)
  have v: "rvm 0 1 0 10 10 [0] = [Fin ((10 - pi) * (180 / pi))]"
    by (simp add: rvm_def rvm_points_def rvm_point_convert_angles rvm_point_psi0_10)
  have b: "90 < (10 - pi) * (180 / pi)"
    using pi_less_4 pi_gt_zero by (simp add: field_simps)
  show ?thesis using d v b by simp
qed

lemma rvm_point_zero_geometry: "rvm_point (rvm_entry 0 0 0 0) 0 = NaN"
  by (simp add: rvm_point_def rvm_sample_def rvm_numer_def rvm_denom_def rvm_entry_def deg2rad_def
      np_divide_def restrict_psi_def rad2deg_def Let_def)

text \<open>
  C6, as stated: at a zero denominator \<^verbatim>\<open>rvm\<close> yields a defined fallback angle and
  no NaN. It fails for \<open>alpha = beta = 0\<close>: numerator and denominator are both zero and
  the element returned is NaN.
\<close>

theorem rvm_nan_at_zero_geometry:
  "rvm_denom (rvm_entry 0 0 0 0) 0 = 0 \<and> rvm 0 0 0 0 0 [0] = [NaN]"
proof -
  have d: "rvm_denom (rvm_entry 0 0 0 0) 0 = 0"
    by (simp add: rvm_denom_def rvm_entry_def)
  have v: "rvm 0 0 0 0 0 [0] = [NaN]"
    by (simp add: rvm_def rvm_points_def rvm_point_convert_angles rvm_point_zero_geometry)
  show ?thesis using d v by simp
qed

text \<open>
  C6, amended. \<^verbatim>\<open>rvm\<close> has no guard for a zero denominator and raises no fault; the
  division is NumPy's. Every phase sample is computed from its numerator and denominator
  by lines 41 to 51, and at a zero denominator these give: for a non-zero numerator an
  infinite quotient with the sign of the numerator, the arctangent \<open>pi / 2\<close> or
  \<open>- pi / 2\<close>, and so the finite angle \<open>psi0 + pi / 2\<close> or \<open>psi0 - pi / 2\<close> after the
  single correction; for a zero numerator NaN.
\<close>

theorem rvm_zero_denominator:
  "rvm_sample s numer 0 =
     (if numer = 0 then NaN
      else rad2deg (restrict_psi (Fin (s + (if 0 < numer then pi / 2 else - (pi / 2)))))) \<and>
   rvm a b p0 s psi xprof =
     map (\<lambda>x. rvm_sample s (rvm_numer (rvm_entry a b p0 s) x)
                             (rvm_denom (rvm_entry a b p0 s) x)) xprof"
proof -
  have sample: "rvm_sample s numer 0 =
     (if numer = 0 then NaN
      else rad2deg (restrict_psi (Fin (s + (if 0 < numer then pi / 2 else - (pi / 2))))))"
    by (simp add: rvm_sample_def np_divide_def restrict_psi_def rad2deg_def Let_def)
  have "rvm a b p0 s psi xprof =
     map (\<lambda>x. rvm_sample s (rvm_numer (rvm_entry a b p0 s) x)
                             (rvm_denom (rvm_entry a b p0 s) x)) xprof"
    by (simp add: rvm_def rvm_points_def rvm_point_convert_angles)
       (simp add: rvm_point_def rvm_entry_def)
  then show ?thesis using sample by simp
qed

theorem rvm_zero_denominator_witness:
  "rvm_sample 0 1 0 = Fin 90 \<and> rvm_sample 0 (- 1) 0 = Fin (- 90) \<and> rvm_sample 0 0 0 = NaN"
proof -
  have a: "rad2deg (restrict_psi (Fin (pi / 2))) = Fin 90"
    by (simp add: restrict_psi_def rad2deg_def Let_def)
  have b: "rad2deg (restrict_psi (Fin (- (pi / 2)))) = Fin (- 90)"
    by (simp add: restrict_psi_def rad2deg_def Let_def)
  show ?thesis
    using rvm_zero_denominator[where s = 0 and numer = 1]
      rvm_zero_denominator[where s = 0 and numer = "- 1"]
      rvm_zero_denominator[where s = 0 and numer = 0] a b
    by simp
qed

section \<open>Properties of the selection of the dispersion measure\<close>

lemma np_max_Max:
  assumes "xs \<noteq> []"
  shows "np_max xs = Some (Max (set xs))"
proof (cases xs)
  case Nil
  then show ?thesis using assms by simp
next
  case (Cons a list)
  have "Max (set (a # list)) = fold max list a" by (rule Max.set_eq_fold)
  then show ?thesis using Cons by (simp add: np_max_def)
qed

lemma py_index_nat: "i < length xs \<Longrightarrow> py_index xs (int i) = Some (xs ! i)"
  by (simp add: py_index_def)

lemma selection_loop_fold:
  assumes "peaks \<noteq> []" "length dm_range = length peaks" "\<forall>i\<in>set js. i < length peaks"
  shows "selection_loop peaks dm_range best js =
         Some (fold (\<lambda>i b. if peaks ! i = Max (set peaks) then Some (dm_range ! i) else b) js best)"
  using assms
proof (induction js arbitrary: best)
  case Nil
  then show ?case by simp
next
  case (Cons i js)
  then show ?case by (simp add: np_max_Max py_index_nat)
qed

lemma fold_upt_last_max:
  assumes "\<exists>i<k. peaks ! i = m"
  shows "\<exists>i<k. fold (\<lambda>i b. if peaks ! i = m then Some (dm_range ! i) else b) [0..<k] None
                  = Some (dm_range ! i) \<and> peaks ! i = m \<and> (\<forall>j. i < j \<and> j < k \<longrightarrow> peaks ! j \<noteq> m)"
  using assms
proof (induction k)
  case 0
  then show ?case by simp
next
  case (Suc k)
  show ?case
  proof (cases "peaks ! k = m")
    case True
    then show ?thesis by (intro exI[of _ k]) auto
  next
    case False
    with Suc.prems have "\<exists>i<k. peaks ! i = m"
      by (metis less_Suc_eq)
    from Suc.IH[OF this] obtain i where i: "i < k"
      "fold (\<lambda>i b. if peaks ! i = m then Some (dm_range ! i) else b) [0..<k] None = Some (dm_range ! i)"
      "peaks ! i = m" "\<forall>j. i < j \<and> j < k \<longrightarrow> peaks ! j \<noteq> m" by blast
    show ?thesis
      using i False by (intro exI[of _ i]) (auto simp: less_Suc_eq)
  qed
qed

text \<open>
  C3, as stated: on a tie the first maximal trial value in the order of \<^verbatim>\<open>dm_range\<close>
  is selected. With the peaks \<open>[1, 1]\<close> for the trial values \<open>[5, 7]\<close> the loop ends
  with 7, while the first maximal trial value is 5.
\<close>

theorem select_best_dm_takes_later_tie:
  "select_best_dm [1, 1] [5, 7] = Some (Some 7) \<and> first_maximal_dm [1, 1] [5, 7] = Some 5"
  by (simp add: select_best_dm_def py_index_def np_max_def first_maximal_dm_def upt_rec)

text \<open>
  C3, amended. The loop has no exit: every index whose peak equals the maximum assigns
  \<^verbatim>\<open>best_dm\<close>, so the value selected is the last maximal trial value in the order
  of \<^verbatim>\<open>dm_range\<close>.
\<close>

theorem select_best_dm_last_maximum:
  assumes "peaks \<noteq> []" "length dm_range = length peaks"
  shows "\<exists>i<length peaks. select_best_dm peaks dm_range = Some (Some (dm_range ! i)) \<and>
           np_max peaks = Some (peaks ! i) \<and>
           (\<forall>j. i < j \<and> j < length peaks \<longrightarrow> np_max peaks \<noteq> Some (peaks ! j))"
proof -
  have "Max (set peaks) \<in> set peaks" using assms(1) by simp
  then have ex: "\<exists>i<length peaks. peaks ! i = Max (set peaks)"
    by (simp add: in_set_conv_nth)
  from fold_upt_last_max[OF ex, of dm_range] obtain i where i: "i < length peaks"
    "fold (\<lambda>i b. if peaks ! i = Max (set peaks) then Some (dm_range ! i) else b) [0..<length peaks] None
       = Some (dm_range ! i)"
    "peaks ! i = Max (set peaks)" "\<forall>j. i < j \<and> j < length peaks \<longrightarrow> peaks ! j \<noteq> Max (set peaks)"
    by blast
  have "select_best_dm peaks dm_range = Some (Some (dm_range ! i))"
    unfolding select_best_dm_def using selection_loop_fold[OF assms, of "[0..<length peaks]" None] i(2)
    by simp
  then show ?thesis using i assms(1) by (intro exI[of _ i]) (auto simp: np_max_Max)
qed

theorem select_best_dm_last_maximum_witness:
  "[1, 3, 3] \<noteq> ([] :: real list) \<and> length [5, 6, 7 :: real] = length [1, 3, 3 :: real] \<and>
   (\<exists>i<length [1, 3, 3 :: real].
       select_best_dm [1, 3, 3] [5, 6, 7] = Some (Some ([5, 6, 7] ! i)) \<and>
       np_max [1, 3, 3] = Some ([1, 3, 3] ! i) \<and>
       (\<forall>j. i < j \<and> j < length [1, 3, 3 :: real] \<longrightarrow> np_max [1, 3, 3] \<noteq> Some ([1, 3, 3] ! j)))"
  using select_best_dm_last_maximum[of "[1, 3, 3]" "[5, 6, 7]"] by simp

section \<open>Properties of the trial of one dispersion measure\<close>

lemma rotate_replicate_const: "rotate m (replicate n v) = replicate n v"
  by (rule nth_equalityI) (simp_all add: nth_rotate)

lemma np_roll_replicate: "np_roll (replicate n v) k = replicate n v"
  by (simp add: np_roll_def rotate_replicate_const)

lemma funpow_max_self: "(max (v::real) ^^ n) v = v"
  by (induction n) simp_all

lemma peak_value_replicate: "0 < n \<Longrightarrow> peak_value (replicate n v) = v"
  by (cases n) (simp_all add: peak_value_def funpow_max_self)

lemma mean_profile_one: "mean_profile [replicate n a] = replicate n a"
  by (rule nth_equalityI) (simp_all add: mean_profile_def)

lemma mean_profile_two: "mean_profile [replicate n a, replicate n b] = replicate n ((a + b) / 2)"
  by (rule nth_equalityI) (simp_all add: mean_profile_def)

lemma those_map_Some:
  assumes "\<forall>x\<in>set xs. f x = Some (g x)"
  shows "those (map f xs) = Some (map g xs)"
  using assms by (induction xs) simp_all

lemma those_length: "those xs = Some ys \<Longrightarrow> length ys = length xs"
  by (induction xs arbitrary: ys) (auto split: option.splits)

lemma shifted_profiles_length:
  assumes "shifted_profiles bm nch freq profile t_res dm_trial = Some shifted_profile"
  shows "length shifted_profile = nat (nch - 1)"
  using those_length[OF assms[unfolded shifted_profiles_def]] by simp

text \<open>
  What the script records for one trial value: the peak of the average of the rolled
  profiles of the channels \<open>0\<close> to \<open>nch - 2\<close>.
\<close>

lemma trial_peak_explicit:
  assumes "0 < nch" "nat nch \<le> length freq" "nat (nch - 1) \<le> length profile"
  shows "trial_peak bm nch freq profile t_res dm_trial =
     Some (find_peak bm (avg_prof bm
        (map (\<lambda>freq_id. np_roll (profile ! freq_id)
                (delay bm (freq ! nat (nch - 1)) (freq ! freq_id) dm_trial t_res))
           [0..<nat (nch - 1)])))"
proof -
  have r: "py_index freq (nch - 1) = Some (freq ! nat (nch - 1))"
    using assms(1,2) by (simp add: py_index_def)
  have "\<forall>freq_id\<in>set [0..<nat (nch - 1)].
      do { f_ref \<leftarrow> py_index freq (nch - 1);
           f \<leftarrow> py_index freq (int freq_id);
           pr \<leftarrow> py_index profile (int freq_id);
           Some (np_roll pr (delay bm f_ref f dm_trial t_res)) } =
      Some (np_roll (profile ! freq_id)
                (delay bm (freq ! nat (nch - 1)) (freq ! freq_id) dm_trial t_res))"
    using assms by (auto simp: r py_index_def)
  from those_map_Some[OF this] have
    "shifted_profiles bm nch freq profile t_res dm_trial =
      Some (map (\<lambda>freq_id. np_roll (profile ! freq_id)
                (delay bm (freq ! nat (nch - 1)) (freq ! freq_id) dm_trial t_res))
           [0..<nat (nch - 1)])"
    by (simp add: shifted_profiles_def)
  then show ?thesis by (simp add: trial_peak_def)
qed

text \<open>
  C4. The claim is that for every trial value all \<open>nch\<close> channels are rolled, the
  reference channel included, and that the peak recorded is that of the average over all
  of them. The inner loop runs over \<^verbatim>\<open>range(nch-1)\<close> and leaves the reference channel
  \<open>nch - 1\<close> out. With two channels, a profile of \<open>res\<close> zeros in channel 0 and of
  \<open>res\<close> twos in the reference channel, the average taken sample by sample and the peak
  as the largest sample, the script records the peak 0 for every trial value and every
  delay function; the average over both channels has the peak 1.
\<close>

theorem trial_peak_omits_reference_channel:
  "trial_peak (bm\<lparr>avg_prof := mean_profile, find_peak := peak_value\<rparr>) 2 [f0, f1]
     [replicate res 0, replicate res 2] t_res dm_trial = Some 0 \<and>
   trial_peak_all_channels (bm\<lparr>avg_prof := mean_profile, find_peak := peak_value\<rparr>) 2 [f0, f1]
     [replicate res 0, replicate res 2] t_res dm_trial = Some 1"
proof -
  have code: "trial_peak (bm\<lparr>avg_prof := mean_profile, find_peak := peak_value\<rparr>) 2 [f0, f1]
     [replicate res 0, replicate res 2] t_res dm_trial = Some 0"
    by (simp add: trial_peak_def shifted_profiles_def py_index_def np_roll_replicate
        mean_profile_one peak_value_replicate res_def)
  have spec: "trial_peak_all_channels (bm\<lparr>avg_prof := mean_profile, find_peak := peak_value\<rparr>) 2
     [f0, f1] [replicate res 0, replicate res 2] t_res dm_trial = Some 1"
    by (simp add: trial_peak_all_channels_def shifted_profiles_all_channels_def py_index_def
        np_roll_replicate mean_profile_two peak_value_replicate res_def upt_rec)
  show ?thesis using code spec by simp
qed

section \<open>Properties of the scattering stage\<close>

text \<open>
  C8. With the scattering flag unset the stage hands the list of profiles on unchanged:
  \<^verbatim>\<open>sc_prof\<close> is \<^verbatim>\<open>prof\<close>, and no pulse train, broadening function or convolution
  is computed.
\<close>

theorem scattering_stage_passthrough:
  "scattering_stage bm None P dm iseed freq prof = Some prof"
  by (simp add: scattering_stage_def)

section \<open>Properties of the profile extraction\<close>

subsection \<open>Rounding to doubles\<close>

lemma round_half_even_of_int: "round_half_even (of_int n) = n"
  by (simp add: round_half_even_def)

lemma round_half_even_range:
  "round_half_even y = \<lfloor>y\<rfloor> \<or> round_half_even y = \<lfloor>y\<rfloor> + 1"
  by (simp add: round_half_even_def Let_def)

lemma round_half_even_mono:
  assumes "a \<le> b"
  shows "round_half_even a \<le> round_half_even b"
proof (cases "\<lfloor>a\<rfloor> = \<lfloor>b\<rfloor>")
  case True
  have "a - of_int \<lfloor>b\<rfloor> \<le> b - of_int \<lfloor>b\<rfloor>" using assms by simp
  then show ?thesis
    using True by (auto simp: round_half_even_def Let_def)
next
  case False
  have "\<lfloor>a\<rfloor> \<le> \<lfloor>b\<rfloor>" using assms by (rule floor_mono)
  then have "\<lfloor>a\<rfloor> + 1 \<le> \<lfloor>b\<rfloor>" using False by simp
  moreover have "round_half_even a \<le> \<lfloor>a\<rfloor> + 1" "\<lfloor>b\<rfloor> \<le> round_half_even b"
    using round_half_even_range[of a] round_half_even_range[of b] by auto
  ultimately show ?thesis by linarith
qed

lemma round_half_even_eqI:
  assumes "of_int n \<le> y" "y < of_int n + 1 / 2"
  shows "round_half_even y = n"
proof -
  have "\<lfloor>y\<rfloor> = n" using assms by (intro floor_unique) auto
  then show ?thesis using assms by (simp add: round_half_even_def Let_def)
qed

lemma round_half_even_up:
  assumes "of_int n - 1 / 2 < y" "y \<le> of_int n"
  shows "round_half_even y = n"
proof (cases "y = of_int n")
  case True
  then show ?thesis by (simp add: round_half_even_of_int)
next
  case False
  have "\<lfloor>y\<rfloor> = n - 1" using assms False by (intro floor_unique) auto
  then show ?thesis using assms by (simp add: round_half_even_def Let_def)
qed

lemma binary64_exponent_scaled:
  assumes "2 ^ 52 \<le> \<bar>y\<bar>" "\<bar>y\<bar> < 2 ^ 53" "- 1074 \<le> k"
  shows "binary64_exponent (y * 2 powr of_int k) = k"
proof -
  have pos: "0 < \<bar>y\<bar> * 2 powr of_int k" using assms(1) by (simp add: zero_less_mult_iff)
  have a: "(2::real) powr of_int (52 + k) = 2 ^ 52 * 2 powr of_int k"
    by (simp add: powr_add)
  have b: "(2::real) powr (of_int (52 + k) + 1) = 2 ^ 53 * 2 powr of_int k"
    by (simp add: powr_add)
  have "2 powr real_of_int (52 + k) \<le> \<bar>y\<bar> * 2 powr real_of_int k \<and>
        \<bar>y\<bar> * 2 powr real_of_int k < 2 powr (real_of_int (52 + k) + 1)"
    unfolding a b using assms(1,2) by simp
  then have "\<lfloor>log 2 (\<bar>y\<bar> * 2 powr of_int k)\<rfloor> = 52 + k"
    using floor_log_eq_powr_iff[OF pos, of 2 "52 + k"] by simp
  then show ?thesis using assms(3) by (simp add: binary64_exponent_def abs_mult)
qed

lemma binary64_scaled:
  assumes "2 ^ 52 \<le> \<bar>y\<bar>" "\<bar>y\<bar> < 2 ^ 53" "- 1074 \<le> k"
  shows "binary64 (y * 2 powr of_int k) = of_int (round_half_even y) * 2 powr of_int k"
proof -
  have "y \<noteq> 0" using assms(1) by auto
  then show ?thesis
    by (simp add: binary64_def binary64_exponent_scaled[OF assms])
qed

lemma binary64_exponent_bounds:
  assumes "0 < x"
  shows "x / 2 powr of_int (binary64_exponent x) < 2 ^ 53"
    and "- 1074 < binary64_exponent x \<Longrightarrow> 2 ^ 52 \<le> x / 2 powr of_int (binary64_exponent x)"
proof -
  define L where "L = \<lfloor>log 2 x\<rfloor>"
  have lo: "2 powr of_int L \<le> x" and hi: "x < 2 powr (of_int L + 1)"
    using floor_log_eq_powr_iff[of x 2 L] assms by (simp_all add: L_def)
  have e: "binary64_exponent x = max L (- 1022) - 52"
    using assms by (simp add: binary64_exponent_def L_def)
  have "2 powr (of_int L + 1) \<le> (2::real) powr (of_int (binary64_exponent x) + 53)"
    by (intro powr_mono) (simp_all add: e)
  then have "x < 2 powr (of_int (binary64_exponent x) + 53)" using hi by linarith
  then have "x < 2 ^ 53 * 2 powr of_int (binary64_exponent x)"
    by (simp add: powr_add mult.commute)
  then show "x / 2 powr of_int (binary64_exponent x) < 2 ^ 53"
    by (simp add: pos_divide_less_eq)
  show "2 ^ 52 \<le> x / 2 powr of_int (binary64_exponent x)" if "- 1074 < binary64_exponent x"
  proof -
    have "binary64_exponent x = L - 52" using that e by simp
    then have "2 powr (of_int (binary64_exponent x) + 52) = (2::real) powr of_int L" by simp
    then have "2 ^ 52 * 2 powr of_int (binary64_exponent x) \<le> x"
      using lo by (simp add: powr_add mult.commute)
    then show ?thesis by (simp add: pos_le_divide_eq)
  qed
qed

lemma binary64_exponent_mono:
  assumes "0 < x" "x \<le> y"
  shows "binary64_exponent x \<le> binary64_exponent y"
proof -
  have "log 2 x \<le> log 2 y" using assms by simp
  then have "\<lfloor>log 2 x\<rfloor> \<le> \<lfloor>log 2 y\<rfloor>" by (rule floor_mono)
  then show ?thesis using assms by (simp add: binary64_exponent_def)
qed

lemma binary64_nonneg:
  assumes "0 \<le> x"
  shows "0 \<le> binary64 x"
proof (cases "x = 0")
  case True
  then show ?thesis by (simp add: binary64_def)
next
  case False
  then have "0 \<le> x / 2 powr of_int (binary64_exponent x)" using assms by simp
  then have "round_half_even 0 \<le> round_half_even (x / 2 powr of_int (binary64_exponent x))"
    by (rule round_half_even_mono)
  then have "0 \<le> round_half_even (x / 2 powr of_int (binary64_exponent x))"
    using round_half_even_of_int[of 0] by simp
  then show ?thesis using False by (simp add: binary64_def Let_def)
qed

lemma binary64_mono:
  assumes "0 \<le> x" "x \<le> y"
  shows "binary64 x \<le> binary64 y"
proof (cases "x = 0")
  case True
  then show ?thesis using binary64_nonneg[of y] assms by (simp add: binary64_def)
next
  case False
  then have x: "0 < x" and y: "0 < y" using assms by simp_all
  define ex where "ex = binary64_exponent x"
  define ey where "ey = binary64_exponent y"
  have le: "ex \<le> ey" unfolding ex_def ey_def using binary64_exponent_mono[OF x assms(2)] .
  have bx: "binary64 x = of_int (round_half_even (x / 2 powr of_int ex)) * 2 powr of_int ex"
    using x by (simp add: binary64_def ex_def Let_def)
  have by': "binary64 y = of_int (round_half_even (y / 2 powr of_int ey)) * 2 powr of_int ey"
    using y by (simp add: binary64_def ey_def Let_def)
  show ?thesis
  proof (cases "ex = ey")
    case True
    have "x / 2 powr of_int ey \<le> y / 2 powr of_int ey"
      using assms(2) by (simp add: divide_right_mono)
    then have "round_half_even (x / 2 powr of_int ey) \<le> round_half_even (y / 2 powr of_int ey)"
      by (rule round_half_even_mono)
    then show ?thesis unfolding bx by' True by (simp add: mult_right_mono)
  next
    case False
    then have lt: "ex + 1 \<le> ey" using le by simp
    have "x / 2 powr of_int ex \<le> of_int (2 ^ 53)"
      using binary64_exponent_bounds(1)[OF x] by (simp add: ex_def)
    then have "round_half_even (x / 2 powr of_int ex) \<le> round_half_even (of_int (2 ^ 53))"
      by (rule round_half_even_mono)
    then have rx: "round_half_even (x / 2 powr of_int ex) \<le> 2 ^ 53"
      by (simp only: round_half_even_of_int)
    have "- 1074 \<le> ex"
      by (simp add: ex_def binary64_exponent_def)
    then have "- 1074 < ey" using lt by simp
    then have "of_int (2 ^ 52) \<le> y / 2 powr of_int ey"
      using binary64_exponent_bounds(2)[OF y] by (simp add: ey_def)
    then have "round_half_even (of_int (2 ^ 52)) \<le> round_half_even (y / 2 powr of_int ey)"
      by (rule round_half_even_mono)
    then have ry: "2 ^ 52 \<le> round_half_even (y / 2 powr of_int ey)"
      by (simp only: round_half_even_of_int)
    have "binary64 x \<le> 2 ^ 53 * 2 powr of_int ex"
      unfolding bx using rx by (intro mult_right_mono) (simp_all add: of_int_le_iff[symmetric] del: of_int_le_iff)
    also have "\<dots> = 2 ^ 52 * 2 powr of_int (ex + 1)"
      by (simp add: powr_add)
    also have "\<dots> \<le> 2 ^ 52 * 2 powr of_int ey"
      using lt by (intro mult_left_mono powr_mono) simp_all
    also have "\<dots> \<le> binary64 y"
      unfolding by' using ry by (intro mult_right_mono) (simp_all add: of_int_le_iff[symmetric] del: of_int_le_iff)
    finally show ?thesis .
  qed
qed

lemma two_powr_neg: "(2::real) powr (- real n) = 1 / 2 ^ n"
  by (simp add: powr_minus_divide powr_realpow)

lemma binary64_eval:
  assumes "round_half_even y = m" "x = y / 2 ^ n" "2 ^ 52 \<le> \<bar>y\<bar>" "\<bar>y\<bar> < 2 ^ 53" "n \<le> 1074"
  shows "binary64 x = of_int m / 2 ^ n"
proof -
  have "- 1074 \<le> - int n" using assms(5) by simp
  from binary64_scaled[OF assms(3,4) this] show ?thesis
    using assms(1,2) by (simp add: two_powr_neg)
qed

lemma binary64_360: "binary64 360 = 360"
  using binary64_eval[where n = 44, OF round_half_even_of_int[of 6333186975989760], of 360] by simp

lemma binary64_last: "binary64 (360 - 1 / 2 ^ 44) = 360 - 1 / 2 ^ 44"
  using binary64_eval[where n = 44, OF round_half_even_of_int[of 6333186975989759],
      of "360 - 1 / 2 ^ 44"] by simp

lemma binary64_below_1000: "binary64 (1000 - 1 / 2 ^ 43) = 1000 - 1 / 2 ^ 43"
  using binary64_eval[where n = 43, OF round_half_even_of_int[of 8796093022207999],
      of "1000 - 1 / 2 ^ 43"] by simp

lemma binary64_step: "binary64 (360 / 1000) = 6485183463413514 / 2 ^ 54"
proof -
  have r: "round_half_even (360 / 1000 * 2 ^ 54) = 6485183463413514"
    by (rule round_half_even_eqI) simp_all
  show ?thesis
    using binary64_eval[where n = 54, OF r, of "360 / 1000"] by simp
qed

lemma binary64_quotient_at_360:
  "binary64 (360 / (6485183463413514 / 2 ^ 54)) = 1000"
proof -
  have r: "round_half_even (360 / (6485183463413514 / 2 ^ 54) * 2 ^ 43) = 8796093022208000"
    by (rule round_half_even_eqI) simp_all
  show ?thesis
    using binary64_eval[where n = 43, OF r, of "360 / (6485183463413514 / 2 ^ 54)"] by simp
qed

lemma binary64_tie_below_360: "binary64 (360 - 1 / 2 ^ 45) = 360"
proof -
  have f: "\<lfloor>6333186975989760 - 1 / 2 :: real\<rfloor> = 6333186975989759"
    by (rule floor_unique) simp_all
  have r: "round_half_even (6333186975989760 - 1 / 2) = 6333186975989760"
    using f by (simp add: round_half_even_def Let_def)
  show ?thesis
    using binary64_eval[where n = 44, OF r, of "360 - 1 / 2 ^ 45"] by simp
qed

subsection \<open>The grid indices\<close>

lemma dx_value: "dx = 6485183463413514 / 2 ^ 54"
proof -
  have "dx = binary64 (binary64 360 / 1000)"
    by (simp add: dx_def fdiv_def fsub_def xmax_def xmin_def res_def)
  also have "\<dots> = binary64 (360 / 1000)" by (simp only: binary64_360)
  finally show ?thesis by (simp only: binary64_step)
qed

lemma dy_value: "dy = 6485183463413514 / 2 ^ 54"
proof -
  have "dy = binary64 (binary64 360 / 1000)"
    by (simp add: dy_def fdiv_def fsub_def ymax_def ymin_def res_def)
  also have "\<dots> = binary64 (360 / 1000)" by (simp only: binary64_360)
  finally show ?thesis by (simp only: binary64_step)
qed

lemma grid_index_bounds:
  assumes "- 180 \<le> v" "v \<le> last_indexable"
  shows "0 \<le> grid_index (- 180) (6485183463413514 / 2 ^ 54) v \<and>
         grid_index (- 180) (6485183463413514 / 2 ^ 54) v < 1000"
proof -
  define t where "t = binary64 (v + 180)"
  define q where "q = binary64 (t / (6485183463413514 / 2 ^ 54))"
  have t0: "0 \<le> t" unfolding t_def using assms(1) by (intro binary64_nonneg) simp
  have "t \<le> binary64 (360 - 1 / 2 ^ 44)"
    unfolding t_def using assms by (intro binary64_mono) (simp_all add: last_indexable_def)
  then have t1: "t \<le> 360 - 1 / 2 ^ 44" by (simp only: binary64_last)
  have d0: "0 \<le> t / (6485183463413514 / 2 ^ 54)" using t0 by simp
  have "t / (6485183463413514 / 2 ^ 54) \<le> (360 - 1 / 2 ^ 44) / (6485183463413514 / 2 ^ 54)"
    using t1 by (intro divide_right_mono) simp_all
  also have "\<dots> \<le> 1000 - 1 / 2 ^ 43" by simp
  finally have d1: "t / (6485183463413514 / 2 ^ 54) \<le> 1000 - 1 / 2 ^ 43" .
  have q0: "0 \<le> q" unfolding q_def using d0 by (rule binary64_nonneg)
  have "q \<le> binary64 (1000 - 1 / 2 ^ 43)"
    unfolding q_def using d0 d1 by (rule binary64_mono)
  then have "q \<le> 1000 - 1 / 2 ^ 43" by (simp only: binary64_below_1000)
  then have q1: "q < 1000" by simp
  have "\<lfloor>q\<rfloor> < 1000" using q1 by (simp add: floor_less_iff)
  moreover have "0 \<le> \<lfloor>q\<rfloor>" using q0 by simp
  moreover have "grid_index (- 180) (6485183463413514 / 2 ^ 54) v = \<lfloor>q\<rfloor>"
    using q0 by (simp add: grid_index_def fdiv_def fsub_def float_to_int_def q_def t_def)
  ultimately show ?thesis by simp
qed

lemma x_index_bounds:
  assumes "xmin \<le> v" "v \<le> last_indexable"
  shows "0 \<le> grid_index xmin dx v \<and> grid_index xmin dx v < int res"
  using grid_index_bounds[of v] assms by (simp add: xmin_def dx_value res_def)

lemma y_index_bounds:
  assumes "ymin \<le> v" "v \<le> last_indexable"
  shows "0 \<le> grid_index ymin dy v \<and> grid_index ymin dy v < int res"
  using grid_index_bounds[of v] assms by (simp add: ymin_def dy_value res_def)

lemma grid_index_at_180: "grid_index xmin dx 180 = int res"
proof -
  have "fsub 180 xmin = 360" by (simp add: fsub_def xmin_def binary64_360)
  then have "fdiv (fsub 180 xmin) dx = 1000"
    by (simp only: fdiv_def dx_value binary64_quotient_at_360)
  then show ?thesis by (simp add: grid_index_def float_to_int_def res_def)
qed

lemma grid_index_below_180: "grid_index xmin dx below_180 = int res"
proof -
  have "below_180 - xmin = (360 - 1 / 2 ^ 45 :: real)" by (simp add: xmin_def below_180_def)
  then have "fsub below_180 xmin = 360"
    by (simp only: fsub_def binary64_tie_below_360)
  then have "fdiv (fsub below_180 xmin) dx = 1000"
    by (simp only: fdiv_def dx_value binary64_quotient_at_360)
  then show ?thesis by (simp add: grid_index_def float_to_int_def res_def)
qed

lemma binary64_quotient_at_last:
  "binary64 ((360 - 1 / 2 ^ 44) / (6485183463413514 / 2 ^ 54)) = 1000 - 1 / 2 ^ 43"
proof -
  have r: "round_half_even ((360 - 1 / 2 ^ 44) / (6485183463413514 / 2 ^ 54) * 2 ^ 43)
             = 8796093022207999"
    by (rule round_half_even_up) simp_all
  show ?thesis
    using binary64_eval[where n = 43, OF r, of "(360 - 1 / 2 ^ 44) / (6485183463413514 / 2 ^ 54)"]
    by simp
qed

lemma grid_index_last_indexable: "grid_index xmin dx last_indexable = int res - 1"
proof -
  have "last_indexable - xmin = (360 - 1 / 2 ^ 44 :: real)"
    by (simp add: xmin_def last_indexable_def)
  then have "fsub last_indexable xmin = 360 - 1 / 2 ^ 44"
    by (simp only: fsub_def binary64_last)
  then have q: "fdiv (fsub last_indexable xmin) dx = 1000 - 1 / 2 ^ 43"
    by (simp only: fdiv_def dx_value binary64_quotient_at_last)
  have f: "\<lfloor>1000 - 1 / 2 ^ 43 :: real\<rfloor> = 999"
    by (rule floor_unique) simp_all
  have p: "(0::real) \<le> 1000 - 1 / 2 ^ 43" by simp
  have "float_to_int (1000 - 1 / 2 ^ 43) = 999"
    unfolding float_to_int_def using f p by (simp only: if_True)
  then show ?thesis
    unfolding grid_index_def q by (simp add: res_def)
qed

lemma grid_index_xmin: "grid_index xmin dx xmin = 0"
  by (simp add: grid_index_def fsub_def fdiv_def binary64_def float_to_int_def)

lemma index_array_bounds:
  assumes "\<forall>v\<in>set xlos. xmin \<le> v \<and> v \<le> last_indexable"
    and "\<forall>v\<in>set ylos. ymin \<le> v \<and> v \<le> last_indexable"
  shows "\<forall>i\<in>set (index_array xlos xmin dx). 0 \<le> i \<and> i < int res"
    and "\<forall>j\<in>set (index_array ylos ymin dy). 0 \<le> j \<and> j < int res"
  using assms x_index_bounds y_index_bounds by (auto simp: index_array_def)

lemma gather_in_bounds:
  assumes len: "length ZxIdx = length ZyIdx"
    and xs: "\<forall>i\<in>set ZxIdx. 0 \<le> i \<and> i < int res"
    and ys: "\<forall>j\<in>set ZyIdx. 0 \<le> j \<and> j < int res"
  shows "gather Z ZxIdx ZyIdx = Some (map (\<lambda>(i, j). Z (nat i) (nat j)) (zip ZxIdx ZyIdx))"
proof -
  have cell: "\<forall>p\<in>set (zip ZxIdx ZyIdx).
     (\<lambda>(i, j). do { r \<leftarrow> axis_index res i; c \<leftarrow> axis_index res j; Some (Z r c) }) p =
     Some ((\<lambda>(i, j). Z (nat i) (nat j)) p)"
  proof
    fix p
    assume p: "p \<in> set (zip ZxIdx ZyIdx)"
    obtain i j where ij: "p = (i, j)" by (cases p)
    have "i \<in> set ZxIdx" "j \<in> set ZyIdx"
      using p ij by (auto dest: set_zip_leftD set_zip_rightD)
    then have "0 \<le> i \<and> i < int res" "0 \<le> j \<and> j < int res"
      using xs ys by auto
    then show "(\<lambda>(i, j). do { r \<leftarrow> axis_index res i; c \<leftarrow> axis_index res j; Some (Z r c) }) p =
     Some ((\<lambda>(i, j). Z (nat i) (nat j)) p)"
      using ij by (simp add: axis_index_def)
  qed
  show ?thesis
    unfolding gather_def using len those_map_Some[OF cell] by (simp add: broadcast_pair_def)
qed

lemma extract_profile_explicit:
  assumes "length xlos = length ylos"
    and "\<forall>v\<in>set xlos. xmin \<le> v \<and> v \<le> last_indexable"
    and "\<forall>v\<in>set ylos. ymin \<le> v \<and> v \<le> last_indexable"
  shows "extract_profile Z xlos ylos =
           Some (map (\<lambda>(vx, vy). Z (nat (grid_index xmin dx vx)) (nat (grid_index ymin dy vy)))
                   (zip xlos ylos))"
proof -
  have len: "length (index_array xlos xmin dx) = length (index_array ylos ymin dy)"
    using assms(1) by (simp add: index_array_def)
  have "map (\<lambda>(i, j). Z (nat i) (nat j)) (zip (index_array xlos xmin dx) (index_array ylos ymin dy))
     = map (\<lambda>(vx, vy). Z (nat (grid_index xmin dx vx)) (nat (grid_index ymin dy vy)))
         (zip xlos ylos)"
    by (simp add: index_array_def zip_map_map split_def)
  then show ?thesis
    using gather_in_bounds[OF len index_array_bounds[OF assms(2,3)], of Z]
    by (simp add: extract_profile_def)
qed

text \<open>
  C2, as stated: for every sample of the line of sight, the coordinate 180 included, the
  indices are clamped or validated into \<open>[0, res - 1]\<close> and the gather never faults.
  No index is clamped or validated: the coordinate 180 has the index \<open>res\<close>, one past
  the last row, and the gather raises; so does the last double below 180,
  179.99999999999997, whose distance from \<open>xmin\<close> rounds to 360.
\<close>

theorem extract_profile_faults_at_180:
  "index_array [180] xmin dx = [int res] \<and> extract_profile zeros [180] [0] = None \<and>
   index_array [below_180] xmin dx = [int res] \<and>
   extract_profile zeros [below_180] [0] = None"
  by (simp add: extract_profile_def index_array_def gather_def broadcast_pair_def axis_index_def
      grid_index_at_180 grid_index_below_180)

text \<open>
  C2, amended. For every sample of the line of sight whose coordinates lie between -180
  and 179.99999999999994, the second double below 180, the indices computed in double
  precision lie in \<open>[0, res - 1]\<close> without any clamping, the gather succeeds, and the
  profile has one element per sample.
\<close>

theorem extract_profile_in_bounds:
  assumes "length xlos = length ylos"
    and "\<forall>v\<in>set xlos. xmin \<le> v \<and> v \<le> last_indexable"
    and "\<forall>v\<in>set ylos. ymin \<le> v \<and> v \<le> last_indexable"
  shows "(\<forall>i\<in>set (index_array xlos xmin dx). 0 \<le> i \<and> i < int res) \<and>
         (\<forall>j\<in>set (index_array ylos ymin dy). 0 \<le> j \<and> j < int res) \<and>
         (\<exists>prof. extract_profile Z xlos ylos = Some prof \<and> length prof = length xlos)"
  using index_array_bounds[OF assms(2,3)] extract_profile_explicit[OF assms, of Z] assms(1)
  by simp

theorem extract_profile_in_bounds_witness:
  "length [last_indexable, xmin] = length [0, last_indexable] \<and>
   xmin \<le> last_indexable \<and> last_indexable \<le> last_indexable \<and> xmin \<le> xmin \<and>
   ymin \<le> 0 \<and> 0 \<le> last_indexable \<and> ymin \<le> last_indexable \<and>
   index_array [last_indexable, xmin] xmin dx = [int res - 1, 0] \<and>
   (\<exists>prof. extract_profile zeros [last_indexable, xmin] [0, last_indexable] = Some prof \<and>
           length prof = 2)"
proof -
  have h: "length [last_indexable, xmin] = length [0, last_indexable]"
    "\<forall>v\<in>set [last_indexable, xmin]. xmin \<le> v \<and> v \<le> last_indexable"
    "\<forall>v\<in>set [0, last_indexable]. ymin \<le> v \<and> v \<le> last_indexable"
    by (simp_all add: xmin_def ymin_def last_indexable_def)
  have i: "index_array [last_indexable, xmin] xmin dx = [int res - 1, 0]"
    by (simp add: index_array_def grid_index_last_indexable grid_index_xmin)
  show ?thesis
    using extract_profile_in_bounds[OF h, of zeros] h i by (auto simp: numeral_2_eq_2)
qed

section \<open>Properties of the two-dimensional beam\<close>

lemma grid_x_nth: "c < res \<Longrightarrow> grid_x ! c = - 180 + real c * (360 / 999)"
  by (simp add: grid_x_def linspace_def res_def xmin_def xmax_def)

lemma grid_y_nth: "r < res \<Longrightarrow> grid_y ! r = - 180 + real r * (360 / 999)"
  by (simp add: grid_y_def linspace_def res_def ymin_def ymax_def)

lemma distance_mask_nonneg: "0 \<le> distance_mask sigmax pc r c"
  by (simp add: distance_mask_def Let_def peakAmp_def)

lemma distance_mask_outside:
  assumes "0 < sigma" "outside_patch sigma pc r c"
  shows "distance_mask sigma pc r c = 0"
proof -
  have "3 < sqrt ((mesh_X r c - fst pc)\<^sup>2 + (mesh_Y r c - snd pc)\<^sup>2) / sigma"
    using assms by (simp add: outside_patch_def pos_less_divide_eq)
  then show ?thesis by (simp add: distance_mask_def Let_def)
qed

lemma patch_increment_nonneg: "0 \<le> patch_increment do_ab sigmax sigmay pc abx aby r c"
  by (simp add: patch_increment_def gaussian_def distance_mask_nonneg)

lemma patch_increment_outside:
  assumes "0 < sigma" "outside_patch sigma pc r c"
  shows "patch_increment do_ab sigma sigmay pc abx aby r c = 0"
  using distance_mask_outside[OF assms] by (simp add: patch_increment_def)

lemma add_patch_cell:
  assumes "add_patch do_ab sx sy abx aby cid Z pc = Some Z1"
  shows "\<exists>ax ay. Z1 r c = Z r c + patch_increment do_ab sx sy pc ax ay r c"
  using assms by (auto simp: add_patch_def split: if_splits)

lemma patch_loop_nonneg:
  assumes "patch_loop (add_patch do_ab sx sy abx aby cid) Z pcs = Some Z'" "0 \<le> Z r c"
  shows "0 \<le> Z' r c"
  using assms
proof (induction pcs arbitrary: Z)
  case Nil
  then show ?case by simp
next
  case (Cons pc pcs)
  from Cons.prems(1) obtain Z1 where s: "add_patch do_ab sx sy abx aby cid Z pc = Some Z1"
    and l: "patch_loop (add_patch do_ab sx sy abx aby cid) Z1 pcs = Some Z'"
    by (auto split: option.splits)
  obtain ax ay where "Z1 r c = Z r c + patch_increment do_ab sx sy pc ax ay r c"
    using add_patch_cell[OF s] by blast
  then have "0 \<le> Z1 r c"
    using Cons.prems(2) patch_increment_nonneg[of do_ab sx sy pc ax ay r c] by simp
  then show ?case using Cons.IH[OF l] by simp
qed

lemma patch_loop_outside:
  assumes "patch_loop (add_patch do_ab sx sy abx aby cid) Z pcs = Some Z'" "0 < sx"
    and "\<forall>pc\<in>set pcs. outside_patch sx pc r c"
  shows "Z' r c = Z r c"
  using assms
proof (induction pcs arbitrary: Z)
  case Nil
  then show ?case by simp
next
  case (Cons pc pcs)
  from Cons.prems(1) obtain Z1 where s: "add_patch do_ab sx sy abx aby cid Z pc = Some Z1"
    and l: "patch_loop (add_patch do_ab sx sy abx aby cid) Z1 pcs = Some Z'"
    by (auto split: option.splits)
  have out: "outside_patch sx pc r c" using Cons.prems(3) by simp
  obtain ax ay where "Z1 r c = Z r c + patch_increment do_ab sx sy pc ax ay r c"
    using add_patch_cell[OF s] by blast
  then have "Z1 r c = Z r c"
    using patch_increment_outside[OF Cons.prems(2) out] by simp
  moreover have "Z' r c = Z1 r c"
    using Cons.IH[OF l Cons.prems(2)] Cons.prems(3) by simp
  ultimately show ?case by simp
qed

lemma component_loop_nonneg:
  assumes "component_loop (component_step do_ab pw cx cy abx aby) Z cids = Some Z'" "0 \<le> Z r c"
  shows "0 \<le> Z' r c"
  using assms
proof (induction cids arbitrary: Z)
  case Nil
  then show ?case by simp
next
  case (Cons cid cids)
  from Cons.prems(1) obtain Z1 where s: "component_step do_ab pw cx cy abx aby Z cid = Some Z1"
    and l: "component_loop (component_step do_ab pw cx cy abx aby) Z1 cids = Some Z'"
    by (auto split: option.splits)
  have "0 \<le> Z1 r c"
    using s Cons.prems(2) patch_loop_nonneg
    by (auto simp: component_step_def Let_def split: if_splits)
  then show ?case using Cons.IH[OF l] by simp
qed

lemma component_loop_outside:
  assumes "component_loop (component_step do_ab pw cx cy abx aby) Z cids = Some Z'"
    and "\<forall>cid\<in>set cids. 0 < pw ! cid"
    and "\<forall>cid\<in>set cids. \<forall>pc\<in>set (zip (cx ! cid) (cy ! cid)). outside_patch (pw ! cid) pc r c"
  shows "Z' r c = Z r c"
  using assms
proof (induction cids arbitrary: Z)
  case Nil
  then show ?case by simp
next
  case (Cons cid cids)
  from Cons.prems(1) obtain Z1 where s: "component_step do_ab pw cx cy abx aby Z cid = Some Z1"
    and l: "component_loop (component_step do_ab pw cx cy abx aby) Z1 cids = Some Z'"
    by (auto split: option.splits)
  have p: "0 < pw ! cid" using Cons.prems(2) by simp
  have o: "\<forall>pc\<in>set (zip (cx ! cid) (cy ! cid)). outside_patch (pw ! cid) pc r c"
    using Cons.prems(3) by simp
  have "Z1 r c = Z r c"
    using s patch_loop_outside[OF _ p o]
    by (auto simp: component_step_def Let_def split: if_splits)
  moreover have "Z' r c = Z1 r c"
    using Cons.IH[OF l] Cons.prems(2,3) by simp
  ultimately show ?case by simp
qed

text \<open>
  What one patch adds to a cell, for a positive width: the Gaussian about the effective
  centre where the distance \<open>d\<close> from the nominal centre satisfies
  \<open>0 < d \<le> 3 * sigmax\<close>, and 0 elsewhere.
\<close>

lemma patch_increment_explicit:
  assumes "0 < sigmax"
  shows "patch_increment do_ab sigmax sigmay pc abx aby r c =
     (let d = sqrt ((mesh_X r c - fst pc)\<^sup>2 + (mesh_Y r c - snd pc)\<^sup>2) in
      if 0 < d \<and> d \<le> 3 * sigmax
      then (if do_ab = None then gaussian sigmax sigmay (fst pc) (snd pc) r c
            else gaussian sigmax sigmay (fst pc + abx) (snd pc + aby) r c)
      else 0)"
proof -
  define d where "d = sqrt ((mesh_X r c - fst pc)\<^sup>2 + (mesh_Y r c - snd pc)\<^sup>2)"
  have d0: "0 \<le> d" by (simp add: d_def)
  have m: "distance_mask sigmax pc r c = (if 0 < d \<and> d \<le> 3 * sigmax then 1 else 0)"
    using assms d0
    by (auto simp: distance_mask_def Let_def peakAmp_def d_def[symmetric] pos_less_divide_eq
        pos_divide_le_eq)
  show ?thesis
    by (simp add: patch_increment_def m Let_def d_def[symmetric])
qed

text \<open>
  C1. The claim is that every patch adds the Gaussian about its effective centre times an
  indicator that is 1 within three widths of that same centre, the centre itself included.
  The mask of the script is computed about the nominal centre on both branches, and it is
  0 where the distance is exactly 0. With aberration, width 1, the nominal centre at the
  grid point \<open>(-20/111, -20/111)\<close> of row and column 499 and the offset
  \<open>(400/111, 0)\<close>, the cell in row 499 and column 509 is the effective centre and
  receives 0 instead of 1. Without aberration the cell in row 499 and column 499 is the
  centre and receives 0 instead of 1.
\<close>

theorem patch_increment_differs_from_spec:
  "patch_increment (Some ''1'') 1 1 (- 20 / 111, - 20 / 111) (400 / 111) 0 499 509 = 0 \<and>
   spec_patch_contribution (Some ''1'') 1 1 (- 20 / 111, - 20 / 111) (400 / 111) 0 499 509 = 1 \<and>
   patch_increment None 1 1 (- 20 / 111, - 20 / 111) 0 0 499 499 = 0 \<and>
   spec_patch_contribution None 1 1 (- 20 / 111, - 20 / 111) 0 0 499 499 = 1"
proof -
  have x: "mesh_X 499 509 = 380 / 111" by (simp add: mesh_X_def grid_x_nth res_def)
  have y: "mesh_Y 499 509 = - 20 / 111" by (simp add: mesh_Y_def grid_y_nth res_def)
  have x0: "mesh_X 499 499 = - 20 / 111" by (simp add: mesh_X_def grid_x_nth res_def)
  have y0: "mesh_Y 499 499 = - 20 / 111" by (simp add: mesh_Y_def grid_y_nth res_def)
  have "outside_patch 1 (- 20 / 111, - 20 / 111) 499 509"
    unfolding outside_patch_def by (rule real_less_rsqrt) (simp add: x y power2_eq_square)
  then have "distance_mask 1 (- 20 / 111, - 20 / 111) 499 509 = 0"
    by (simp add: distance_mask_outside)
  then have a: "patch_increment (Some ''1'') 1 1 (- 20 / 111, - 20 / 111) (400 / 111) 0 499 509 = 0"
    by (simp add: patch_increment_def)
  have b: "spec_patch_contribution (Some ''1'') 1 1 (- 20 / 111, - 20 / 111) (400 / 111) 0 499 509 = 1"
    by (simp add: spec_patch_contribution_def gaussian_def x y Let_def)
  have c: "patch_increment None 1 1 (- 20 / 111, - 20 / 111) 0 0 499 499 = 0"
    by (simp add: patch_increment_def distance_mask_def x0 y0 Let_def)
  have d: "spec_patch_contribution None 1 1 (- 20 / 111, - 20 / 111) 0 0 499 499 = 1"
    by (simp add: spec_patch_contribution_def gaussian_def x0 y0 Let_def)
  show ?thesis using a b c d by simp
qed

lemma beam_field_cells:
  assumes "beam_field do_ab heights patchwidths centerx centery ab_xofset ab_yofset = Some Z"
    and "\<forall>cid<length heights. 0 < patchwidths ! cid"
    and "r < res" "c < res"
  shows "0 \<le> Z r c \<and>
         ((\<forall>cid<length heights. \<forall>pc\<in>set (zip (centerx ! cid) (centery ! cid)).
              outside_patch (patchwidths ! cid) pc r c)
          \<longrightarrow> Z r c = 0)"
proof -
  have nn: "0 \<le> Z r c"
    using component_loop_nonneg[OF assms(1)[unfolded beam_field_def]] by (simp add: zeros_def)
  have "Z r c = 0"
    if "\<forall>cid<length heights. \<forall>pc\<in>set (zip (centerx ! cid) (centery ! cid)).
                 outside_patch (patchwidths ! cid) pc r c"
    using component_loop_outside[OF assms(1)[unfolded beam_field_def], of r c] assms(2) that
    by (simp add: zeros_def)
  then show ?thesis using nn by simp
qed

section \<open>Properties of the script as a whole\<close>

lemma generateBeam_snr_unused:
  "generateBeam bm P al be freq dm heights npatch snr do_ab iseed fanBeam =
   generateBeam bm P al be freq dm heights npatch snr' do_ab iseed fanBeam"
  by (simp add: generateBeam_def)

lemma generateBeam_profile:
  assumes "generateBeam bm P al be freq dm heights npatch snr do_ab iseed fanBeam = Some (pr, Z)"
  shows "extract_profile Z (fst (los bm al be res)) (fst (snd (los bm al be res))) = Some pr"
  using assms by (auto simp: generateBeam_def split: prod.splits Option.bind_splits)

lemma channel_beam_flags:
  "channel_beam bm (cfg\<lparr>arg_scatter := scr, arg_snr := snr\<rparr>) H f = channel_beam bm cfg H f"
proof -
  have "generateBeam bm (arg_p cfg) (arg_alpha cfg) (arg_beta cfg) f (arg_dm cfg) (height_f bm H f)
                (arg_npatch cfg) snr (arg_do_ab cfg) (arg_iseed cfg) (arg_doFan cfg) =
        generateBeam bm (arg_p cfg) (arg_alpha cfg) (arg_beta cfg) f (arg_dm cfg) (height_f bm H f)
                (arg_npatch cfg) (arg_snr cfg) (arg_do_ab cfg) (arg_iseed cfg) (arg_doFan cfg)"
    by (rule generateBeam_snr_unused)
  then show ?thesis by (simp add: channel_beam_def)
qed

lemma channel_beam_profile:
  assumes "channel_beam bm cfg H f = Some (pr, Z)"
  shows "extract_profile Z (fst (los bm (arg_alpha cfg) (arg_beta cfg) res))
           (fst (snd (los bm (arg_alpha cfg) (arg_beta cfg) res))) = Some pr"
  using assms generateBeam_profile by (simp add: channel_beam_def)

lemma frequency_loop_flags:
  "frequency_loop bm (cfg\<lparr>arg_scatter := scr, arg_snr := snr\<rparr>) H st fs = frequency_loop bm cfg H st fs"
proof (induction fs arbitrary: st)
  case Nil
  then show ?case by simp
next
  case (Cons f fs)
  obtain w10 prof beam where st: "st = (w10, prof, beam)" by (cases st)
  show ?case unfolding st using Cons.IH by (simp add: channel_beam_flags split: option.splits)
qed

text \<open>
  The loop appends, for every frequency in turn, the profile and the field that
  \<^verbatim>\<open>generateBeam\<close> returns for it, and the width of that profile.
\<close>

lemma frequency_loop_appends:
  assumes "frequency_loop bm cfg H (w10, prof, beam) fs = Some (w10', prof', beam')"
  shows "\<exists>new. length new = length fs \<and>
           w10' = w10 @ map (\<lambda>p. find_width bm (fst p)) new \<and>
           prof' = prof @ map fst new \<and> beam' = beam @ map snd new \<and>
           (\<forall>i<length fs. channel_beam bm cfg H (fs ! i) = Some (new ! i))"
  using assms
proof (induction fs arbitrary: w10 prof beam)
  case Nil
  then show ?case by auto
next
  case (Cons f fs)
  from Cons.prems obtain pr Z where
    g: "channel_beam bm cfg H f = Some (pr, Z)" and
    l: "frequency_loop bm cfg H (w10 @ [find_width bm pr], prof @ [pr], beam @ [Z]) fs
          = Some (w10', prof', beam')"
    by (auto split: option.splits)
  from Cons.IH[OF l] obtain new where n: "length new = length fs"
    "w10' = (w10 @ [find_width bm pr]) @ map (\<lambda>p. find_width bm (fst p)) new"
    "prof' = (prof @ [pr]) @ map fst new" "beam' = (beam @ [Z]) @ map snd new"
    "\<forall>i<length fs. channel_beam bm cfg H (fs ! i) = Some (new ! i)"
    by blast
  have "\<forall>i<length (f # fs). channel_beam bm cfg H ((f # fs) ! i) = Some (((pr, Z) # new) ! i)"
    using g n(5) by (auto simp: nth_Cons split: nat.splits)
  then show ?case
    using n(1-4) by (intro exI[of _ "(pr, Z) # new"]) simp
qed

lemma extraction_stage_flags:
  "extraction_stage bm (cfg\<lparr>arg_scatter := scr, arg_snr := snr\<rparr>) = extraction_stage bm cfg"
  by (simp add: extraction_stage_def channel_frequencies_def frequency_loop_flags)

lemma extraction_stage_channels:
  assumes "extraction_stage bm cfg = Some (w10, prof, beam)"
  shows "\<exists>freq. channel_frequencies cfg = Some freq \<and>
           length prof = length freq \<and> length beam = length freq \<and>
           w10 = map (find_width bm) prof \<and>
           (\<forall>i<length freq.
               channel_beam bm cfg
                 (emission_height bm (arg_p cfg) (arg_nc cfg) (arg_iseed cfg) (arg_hmin cfg)
                    (arg_hmax cfg))
                 (freq ! i) = Some (prof ! i, beam ! i))"
proof -
  define H where "H = emission_height bm (arg_p cfg) (arg_nc cfg) (arg_iseed cfg) (arg_hmin cfg)
                    (arg_hmax cfg)"
  obtain freq where f: "channel_frequencies cfg = Some freq"
    and l: "frequency_loop bm cfg H ([], [], []) freq = Some (w10, prof, beam)"
    using assms by (auto simp: extraction_stage_def H_def split: Option.bind_splits)
  from frequency_loop_appends[OF l] obtain new where n: "length new = length freq"
    "w10 = map (\<lambda>p. find_width bm (fst p)) new" "prof = map fst new" "beam = map snd new"
    "\<forall>i<length freq. channel_beam bm cfg H (freq ! i) = Some (new ! i)"
    by auto
  have "\<forall>i<length freq. channel_beam bm cfg H (freq ! i) = Some (prof ! i, beam ! i)"
    using n by simp
  moreover have "w10 = map (find_width bm) prof" using n(2,3) by simp
  ultimately show ?thesis using f n(1,3,4) by (auto simp: H_def)
qed

lemma main_body_w10:
  assumes "main_body bm cfg = Some out"
  shows "\<exists>w10 prof beam. extraction_stage bm cfg = Some (w10, prof, beam) \<and>
           py_index w10 0 = Some (out_w10_first out) \<and>
           py_index w10 (- 1) = Some (out_w10_last out)"
  using assms
  by (auto simp: main_body_def Let_def split: Option.bind_splits prod.splits)

lemma py_index_first_last:
  assumes "py_index xs 0 = Some a" "py_index xs (- 1) = Some b"
  shows "xs \<noteq> [] \<and> a = xs ! 0 \<and> b = xs ! (length xs - 1)"
proof -
  have ne: "xs \<noteq> []" using assms(1) by (auto simp: py_index_def)
  have "a = xs ! 0" using assms(1) ne by (simp add: py_index_def)
  moreover have "b = xs ! (length xs - 1)" using assms(2) ne
    by (simp add: py_index_def nat_diff_distrib' split: if_splits)
  ultimately show ?thesis using ne by simp
qed

text \<open>
  C10. For every channel the loop takes the profile that \<^verbatim>\<open>generateBeam\<close> extracts
  from the beam field for that frequency; the two widths written to the output record are
  those of the profiles of the first and the last channel; and a run that differs only in
  the scattering flag and the signal-to-noise ratio writes the same two widths.
\<close>

theorem w10_from_extracted_profiles:
  assumes "main_body bm cfg = Some out"
    and "main_body bm (cfg\<lparr>arg_scatter := scr, arg_snr := snr\<rparr>) = Some out'"
  shows "\<exists>freq prof beam.
           channel_frequencies cfg = Some freq \<and> freq \<noteq> [] \<and>
           length prof = length freq \<and> length beam = length freq \<and>
           (\<forall>i<length freq.
               channel_beam bm cfg
                 (emission_height bm (arg_p cfg) (arg_nc cfg) (arg_iseed cfg) (arg_hmin cfg)
                    (arg_hmax cfg))
                 (freq ! i) = Some (prof ! i, beam ! i) \<and>
               extract_profile (beam ! i) (fst (los bm (arg_alpha cfg) (arg_beta cfg) res))
                 (fst (snd (los bm (arg_alpha cfg) (arg_beta cfg) res))) = Some (prof ! i)) \<and>
           out_w10_first out = find_width bm (prof ! 0) \<and>
           out_w10_last out = find_width bm (prof ! (length freq - 1)) \<and>
           out_w10_first out' = out_w10_first out \<and> out_w10_last out' = out_w10_last out"
proof -
  obtain w10 prof beam where e: "extraction_stage bm cfg = Some (w10, prof, beam)"
    and i: "py_index w10 0 = Some (out_w10_first out)" "py_index w10 (- 1) = Some (out_w10_last out)"
    using main_body_w10[OF assms(1)] by blast
  from extraction_stage_channels[OF e] obtain freq where f: "channel_frequencies cfg = Some freq"
    "length prof = length freq" "length beam = length freq" "w10 = map (find_width bm) prof"
    and ch: "\<forall>i<length freq.
               channel_beam bm cfg
                 (emission_height bm (arg_p cfg) (arg_nc cfg) (arg_iseed cfg) (arg_hmin cfg)
                    (arg_hmax cfg))
                 (freq ! i) = Some (prof ! i, beam ! i)"
    by blast
  have fl: "w10 \<noteq> []" "out_w10_first out = w10 ! 0" "out_w10_last out = w10 ! (length w10 - 1)"
    using py_index_first_last[OF i] by simp_all
  have ne: "freq \<noteq> []" using fl(1) f(2,4) by auto
  have a: "out_w10_first out = find_width bm (prof ! 0)"
    "out_w10_last out = find_width bm (prof ! (length freq - 1))"
    using fl ne f(2,4) by simp_all
  have ex: "\<forall>i<length freq.
      extract_profile (beam ! i) (fst (los bm (arg_alpha cfg) (arg_beta cfg) res))
        (fst (snd (los bm (arg_alpha cfg) (arg_beta cfg) res))) = Some (prof ! i)"
    using ch channel_beam_profile by blast
  obtain w10' prof' beam' where
    e': "extraction_stage bm (cfg\<lparr>arg_scatter := scr, arg_snr := snr\<rparr>) = Some (w10', prof', beam')"
    and i': "py_index w10' 0 = Some (out_w10_first out')" "py_index w10' (- 1) = Some (out_w10_last out')"
    using main_body_w10[OF assms(2)] by blast
  have "w10' = w10" using e e' by (simp add: extraction_stage_flags)
  then have b: "out_w10_first out' = out_w10_first out" "out_w10_last out' = out_w10_last out"
    using i i' by simp_all
  show ?thesis
    using f(1,2,3) ne ch ex a b by (intro exI[of _ freq] exI[of _ prof] exI[of _ beam]) simp
qed

lemma cfg_sample_flags_unset: "cfg_sample\<lparr>arg_scatter := None, arg_snr := None\<rparr> = cfg_sample"
  by (simp add: cfg_sample_def)

lemma xlos_sample_bounds:
  "\<forall>v\<in>set (map (\<lambda>i. real i / 8 - 60) [0..<res]). xmin \<le> v \<and> v \<le> last_indexable"
  by (auto simp: xmin_def last_indexable_def res_def)

lemma beam_sample:
  "beam_field None [100] [1] [[0]] [[0]] [0] [0] = Some sample_Z"
proof -
  have "sample_Z = (\<lambda>r c. zeros r c + patch_increment None 1 1 (0, 0) 0 0 r c)"
    by (intro ext) (simp add: sample_Z_def)
  then show ?thesis
    by (simp add: beam_field_def component_step_def add_patch_def)
qed

lemma generateBeam_sample:
  "generateBeam bm_sample P al be f dm [100] np snr None seed fan = Some (sample_prof, sample_Z)"
proof -
  have y: "\<forall>v\<in>set (replicate res (0::real)). ymin \<le> v \<and> v \<le> last_indexable"
    by (simp add: ymin_def last_indexable_def)
  have "extract_profile sample_Z
      (map (\<lambda>i. real i / 8 - 60) [0..<res]) (replicate res 0) = Some sample_prof"
    using extract_profile_explicit[OF _ xlos_sample_bounds y, of sample_Z]
    by (simp add: sample_prof_def)
  then show ?thesis
    by (simp add: generateBeam_def bm_sample_def beam_sample)
qed

lemma channel_frequencies_sample:
  "channel_frequencies (cfg_sample\<lparr>arg_scatter := scr, arg_snr := snr\<rparr>) = Some [2 / 10, 1]"
  by (simp add: channel_frequencies_def cfg_sample_def linspace_def upt_rec)

lemma extraction_stage_sample:
  "extraction_stage bm_sample (cfg_sample\<lparr>arg_scatter := scr, arg_snr := snr\<rparr>) =
      Some ([find_width bm_sample sample_prof, find_width bm_sample sample_prof],
            [sample_prof, sample_prof], [sample_Z, sample_Z])"
proof -
  have h: "\<And>P seed lo hi. emission_height bm_sample P 1 seed lo hi = [100]"
    "\<And>H f. height_f bm_sample H f = H"
    by (simp_all add: bm_sample_def)
  show ?thesis
    by (simp add: extraction_stage_def channel_frequencies_sample)
       (simp add: cfg_sample_def channel_beam_def h generateBeam_sample)
qed

lemma main_body_sample:
  "\<exists>out. main_body bm_sample (cfg_sample\<lparr>arg_scatter := scr, arg_snr := snr\<rparr>) = Some out"
proof -
  have tail: "\<exists>out. main_body bm_sample (cfg_sample\<lparr>arg_scatter := scr, arg_snr := snr\<rparr>) = Some out"
    if sc: "scattering_stage bm_sample scr (4 / 25) 1 4 [1 / 5, 1] [sample_prof, sample_prof] = Some [a, b]"
    and no: "noise_stage bm_sample snr 4 (Suc (Suc 0)) [a, b] = Some [a', b']" for a b a' b'
    apply (simp add: main_body_def channel_frequencies_sample extraction_stage_sample)
    apply (simp add: cfg_sample_def sc no)
    apply (simp add: py_index_def bm_sample_def peaks_of_average_def trial_peak_def
        shifted_profiles_def select_best_dm_def np_max_def)
    done
  have sc: "\<exists>a b. scattering_stage bm_sample scr (4 / 25) 1 4 [1 / 5, 1] [sample_prof, sample_prof]
                = Some [a, b]"
    by (cases scr) (simp_all add: scattering_stage_def upt_rec)
  have no: "\<exists>a' b'. noise_stage bm_sample snr 4 (Suc (Suc 0)) [a, b] = Some [a', b']" for a b
    by (cases snr) (simp_all add: noise_stage_def py_index_def np_max_def bm_sample_def upt_rec)
  show ?thesis using tail sc no by blast
qed

theorem w10_from_extracted_profiles_witness:
  "\<exists>out out'.
      main_body bm_sample cfg_sample = Some out \<and>
      main_body bm_sample (cfg_sample\<lparr>arg_scatter := Some ''1'', arg_snr := Some 10\<rparr>) = Some out' \<and>
      out_w10_first out = find_width bm_sample sample_prof \<and>
      out_w10_last out = find_width bm_sample sample_prof \<and>
      out_w10_first out' = out_w10_first out \<and> out_w10_last out' = out_w10_last out"
proof -
  obtain out where a: "main_body bm_sample cfg_sample = Some out"
    using main_body_sample[where scr = None and snr = None] by (auto simp: cfg_sample_flags_unset)
  obtain out' where b:
    "main_body bm_sample (cfg_sample\<lparr>arg_scatter := Some ''1'', arg_snr := Some 10\<rparr>) = Some out'"
    using main_body_sample[where scr = "Some ''1''" and snr = "Some 10"] by blast
  have c: "channel_beam bm_sample cfg_sample
             (emission_height bm_sample (arg_p cfg_sample) (arg_nc cfg_sample) (arg_iseed cfg_sample)
                (arg_hmin cfg_sample) (arg_hmax cfg_sample)) f = Some (sample_prof, sample_Z)" for f
  proof -
    have h: "\<And>P seed lo hi. emission_height bm_sample P 1 seed lo hi = [100]"
      "\<And>H f. height_f bm_sample H f = H"
      by (simp_all add: bm_sample_def)
    show ?thesis by (simp add: channel_beam_def cfg_sample_def h generateBeam_sample)
  qed
  from w10_from_extracted_profiles[OF a b] obtain freq prof beam where
    r: "freq \<noteq> []" "length prof = length freq"
    "\<forall>i<length freq.
       channel_beam bm_sample cfg_sample
         (emission_height bm_sample (arg_p cfg_sample) (arg_nc cfg_sample) (arg_iseed cfg_sample)
            (arg_hmin cfg_sample) (arg_hmax cfg_sample))
         (freq ! i) = Some (prof ! i, beam ! i) \<and>
       extract_profile (beam ! i) (fst (los bm_sample (arg_alpha cfg_sample) (arg_beta cfg_sample) res))
         (fst (snd (los bm_sample (arg_alpha cfg_sample) (arg_beta cfg_sample) res))) = Some (prof ! i)"
    "out_w10_first out = find_width bm_sample (prof ! 0)"
    "out_w10_last out = find_width bm_sample (prof ! (length freq - 1))"
    "out_w10_first out' = out_w10_first out" "out_w10_last out' = out_w10_last out"
    by blast
  have "0 < length freq" "length freq - 1 < length freq" using r(1) by simp_all
  then have "prof ! 0 = sample_prof" "prof ! (length freq - 1) = sample_prof"
    using r(3) c by auto
  then show ?thesis using a b r(4-7) by auto
qed

section \<open>The field returned by \<^verbatim>\<open>generateBeam\<close>\<close>

text \<open>
  For positive patch widths the field is non-negative at every cell, and zero at every
  cell more than three widths from every centre that \<^verbatim>\<open>bm.patch_center\<close> returns,
  with and without aberration.
\<close>

lemma generateBeam_field_cells:
  assumes "generateBeam bm P al be freq dm heights npatch snr do_ab iseed fanBeam = Some (prof, Z)"
    and "\<forall>cid<length heights. 0 < patch_width bm P heights ! cid"
    and "r < res" "c < res"
  shows "0 \<le> Z r c \<and>
         ((\<forall>cid<length heights.
             \<forall>pc\<in>set (zip (fst (patch_center bm P heights npatch iseed fanBeam) ! cid)
                             (snd (patch_center bm P heights npatch iseed fanBeam) ! cid)).
                outside_patch (patch_width bm P heights ! cid) pc r c)
          \<longrightarrow> Z r c = 0)"
proof -
  obtain centerx centery where pc: "patch_center bm P heights npatch iseed fanBeam = (centerx, centery)"
    by (cases "patch_center bm P heights npatch iseed fanBeam")
  obtain ab_xofset ab_yofset where ab: "aberration bm heights P al = (ab_xofset, ab_yofset)"
    by (cases "aberration bm heights P al")
  have "beam_field do_ab heights (patch_width bm P heights) centerx centery ab_xofset ab_yofset
          = Some Z"
    using assms(1) by (auto simp: generateBeam_def pc ab split: prod.splits Option.bind_splits)
  from beam_field_cells[OF this assms(2,3,4)] show ?thesis by (simp add: pc)
qed

text \<open>
  C7. The claim is that the field is non-negative everywhere and exactly zero outside
  three widths of every patch centre. The patch of the specification is centred on the
  aberration-shifted centre when aberration is enabled, while the mask of the script stays
  about the nominal centre. With aberration, one component of width 1, the nominal centre
  \<open>(-20/111, -20/111)\<close> and the offset \<open>(400/111, 0)\<close>, the cell in row 499 and
  column 498 lies \<open>440/111\<close>, more than three widths, from the only effective centre,
  and the field there is \<open>exp (- (440/111)\<^sup>2 / 2)\<close>, not zero.
\<close>

theorem beam_field_nonzero_outside_shifted_patch:
  "\<exists>Z. beam_field (Some ''1'') [100] [1] [[- 20 / 111]] [[- 20 / 111]] [400 / 111] [0] = Some Z \<and>
       Z 499 498 = exp (- ((440 / 111)\<^sup>2 / 2)) \<and> 0 < Z 499 498 \<and>
       outside_patch 1 (- 20 / 111 + 400 / 111, - 20 / 111 + 0) 499 498"
proof -
  define Z where "Z = (\<lambda>r c. zeros r c +
      patch_increment (Some ''1'') 1 1 (- 20 / 111, - 20 / 111) (400 / 111) 0 r c)"
  have f: "beam_field (Some ''1'') [100] [1] [[- 20 / 111]] [[- 20 / 111]] [400 / 111] [0] = Some Z"
    by (simp add: beam_field_def component_step_def add_patch_def Z_def)
  have x: "mesh_X 499 498 = - 60 / 111" by (simp add: mesh_X_def grid_x_nth res_def)
  have y: "mesh_Y 499 498 = - 20 / 111" by (simp add: mesh_Y_def grid_y_nth res_def)
  have d0: "0 < sqrt ((mesh_X 499 498 - (- 20 / 111))\<^sup>2 + (mesh_Y 499 498 - (- 20 / 111))\<^sup>2)"
    by (simp add: x y)
  have d1: "sqrt ((mesh_X 499 498 - (- 20 / 111))\<^sup>2 + (mesh_Y 499 498 - (- 20 / 111))\<^sup>2) \<le> 3"
    by (rule real_le_lsqrt) (simp_all add: x y power2_eq_square)
  have "patch_increment (Some ''1'') 1 1 (- 20 / 111, - 20 / 111) (400 / 111) 0 499 498 =
        gaussian 1 1 (- 20 / 111 + 400 / 111) (- 20 / 111 + 0) 499 498"
    using d0 d1 by (simp add: patch_increment_explicit Let_def)
  also have "\<dots> = exp (- ((440 / 111)\<^sup>2 / 2))"
    by (simp add: gaussian_def x y)
  finally have v: "Z 499 498 = exp (- ((440 / 111)\<^sup>2 / 2))"
    by (simp add: Z_def zeros_def)
  have out: "outside_patch 1 (- 20 / 111 + 400 / 111, - 20 / 111 + 0) 499 498"
    unfolding outside_patch_def by (rule real_less_rsqrt) (simp add: x y power2_eq_square)
  show ?thesis using f v out by (intro exI[of _ Z]) simp
qed

end
